theory Spec2Isabelle
  imports Main "HOL-Library.Multiset" "HOL-Library.List_Lexorder" "HOL-Library.Char_ord"
begin

section \<open>Data of the SSO login workflow\<close>

text \<open>
  The types of the identity provider's SDK (\<^verbatim>\<open>types.AccountInfo\<close>, \<^verbatim>\<open>types.RoleInfo\<close>,
  \<^verbatim>\<open>types.RoleCredentials\<close>) are declared outside the repository. They are modelled by
  records holding the fields the workflow reads; the string pointers of the SDK are taken
  to be non-nil, as the provider returns them.
\<close>

record AccountInfo =
  AccountId :: string
  AccountName :: string

record RoleInfo =
  RoleName :: string
  RoleAccountId :: string

record RoleCredentials =
  AccessKeyId :: string
  SecretAccessKey :: string
  SessionToken :: string
  Expiration :: int

text \<open>One page of \<^verbatim>\<open>sso.ListAccountsOutput\<close> and of \<^verbatim>\<open>sso.ListAccountRolesOutput\<close>.\<close>

record ListAccountsOutput =
  AccountList :: "AccountInfo list"
  AccountsNextToken :: "string option"

record ListAccountRolesOutput =
  RoleList :: "RoleInfo list"
  RolesNextToken :: "string option"

text \<open>
  A Go \<^verbatim>\<open>error\<close> is its message. A function of the workflow either returns such an
  error or panics (an index out of range, a nil pointer read).
\<close>

datatype failure = Error string | Panic string

section \<open>The world outside the workflow\<close>

text \<open>
  Every call that leaves the workflow is recorded, with its arguments, in the order in
  which it happens; so is every line written to the terminal.
\<close>

datatype event =
    Print string
  | Call_NewCredentialsManager
  | Call_GetCachedToken
  | Call_Authenticate string string
  | Call_SaveAccountCache "AccountInfo list"
  | Call_ListAccounts string "string option"
  | Call_ListAccountRoles string string "string option"
  | Call_GetRoleCredentials string string string
  | Call_RunSelector string "string list"
  | Call_WriteProfile string string string RoleCredentials
  | Call_SaveSession int string string string string
  | Call_CleanupStaleSessions

text \<open>
  The collaborators of the workflow live in other packages (\<^verbatim>\<open>internal/config\<close>,
  \<^verbatim>\<open>internal/ui\<close>, the SSO client, \<^verbatim>\<open>viper\<close>, \<^verbatim>\<open>sort\<close>, \<^verbatim>\<open>strings\<close>, \<^verbatim>\<open>os\<close>). They are
  parameters of the model: each is a function on a state \<open>'w\<close> of the outside world
  (token cache, files, provider, terminal) that returns its result and the next state.
  The configuration strings read through \<^verbatim>\<open>viper.GetString\<close> do not change during a run.

  \<^verbatim>\<open>sort.Slice\<close> sees the slice only through the comparison it is given, which here
  compares names; it is modelled by the rearrangement it performs: from the names in
  slice order to the list of original positions in final order.
\<close>

record 'w env =
  sso_start_url :: string
  sso_region :: string
  default_region :: string
  NewCredentialsManager :: "'w \<Rightarrow> string option \<times> 'w"
  GetCachedToken :: "'w \<Rightarrow> (string + string) \<times> 'w"
  Authenticate :: "string \<Rightarrow> string \<Rightarrow> 'w \<Rightarrow> string option \<times> 'w"
  SaveAccountCache :: "AccountInfo list \<Rightarrow> 'w \<Rightarrow> string option \<times> 'w"
  client_ListAccounts :: "string \<Rightarrow> string option \<Rightarrow> 'w \<Rightarrow> (string + ListAccountsOutput) \<times> 'w"
  client_ListAccountRoles ::
    "string \<Rightarrow> string \<Rightarrow> string option \<Rightarrow> 'w \<Rightarrow> (string + ListAccountRolesOutput) \<times> 'w"
  client_GetRoleCredentials ::
    "string \<Rightarrow> string \<Rightarrow> string \<Rightarrow> 'w \<Rightarrow> (string + RoleCredentials) \<times> 'w"
  RunSelector :: "string \<Rightarrow> string list \<Rightarrow> 'w \<Rightarrow> (int \<times> string option) \<times> 'w"
  WriteProfile ::
    "string \<Rightarrow> string \<Rightarrow> string \<Rightarrow> RoleCredentials \<Rightarrow> 'w \<Rightarrow> (string + string) \<times> 'w"
  Getppid :: "'w \<Rightarrow> int"
  SaveSession :: "int \<Rightarrow> string \<Rightarrow> string \<Rightarrow> string \<Rightarrow> string \<Rightarrow> 'w \<Rightarrow> string option \<times> 'w"
  CleanupStaleSessions :: "'w \<Rightarrow> string option \<times> 'w"
  sort_Slice :: "string list \<Rightarrow> nat list"
  EqualFold :: "string \<Rightarrow> string \<Rightarrow> bool"

text \<open>
  The state of a run: the outside world and the events so far. \<open>call\<close> makes a call to a
  collaborator and records it; \<open>Printf\<close> records a line written with \<^verbatim>\<open>fmt.Printf\<close>, which does
  not change the world the collaborators see. \<^verbatim>\<open>os.Getppid\<close> only reads the world.
\<close>

type_synonym 'w st = "'w \<times> event list"

definition call :: "event \<Rightarrow> ('w \<Rightarrow> 'a \<times> 'w) \<Rightarrow> 'w st \<Rightarrow> 'a \<times> 'w st" where
  "call ev f s = (case f (fst s) of (r, w') \<Rightarrow> (r, (w', snd s @ [ev])))"

definition Printf :: "string \<Rightarrow> 'w st \<Rightarrow> 'w st" where
  "Printf line s = (fst s, snd s @ [Print line])"

section \<open>Account and role directory\<close>

text \<open>
  \<^verbatim>\<open>ListAccounts\<close>: the loop fetches a page, returns \<^verbatim>\<open>nil, err\<close> when the fetch fails,
  appends the page otherwise, and stops when the page has no continuation token. The
  result is Go's pair of the slice and the error. A provider that hands out a token on
  every page keeps the loop running: the function is partial, \<open>None\<close> is no return.
\<close>

partial_function (option) ListAccounts_loop ::
  "'w env \<Rightarrow> string \<Rightarrow> AccountInfo list \<Rightarrow> string option \<Rightarrow> 'w st
     \<Rightarrow> ((AccountInfo list \<times> string option) \<times> 'w st) option" where
  "ListAccounts_loop E accessToken allAccounts nextToken s =
     (case call (Call_ListAccounts accessToken nextToken)
             (client_ListAccounts E accessToken nextToken) s of
        (Inl err, s1) \<Rightarrow> Some (([], Some err), s1)
      | (Inr result, s1) \<Rightarrow>
          (case AccountsNextToken result of
             None \<Rightarrow> Some ((allAccounts @ AccountList result, None), s1)
           | Some t \<Rightarrow> ListAccounts_loop E accessToken (allAccounts @ AccountList result) (Some t) s1))"

declare ListAccounts_loop.simps [code]

definition ListAccounts ::
  "'w env \<Rightarrow> string \<Rightarrow> 'w st \<Rightarrow> ((AccountInfo list \<times> string option) \<times> 'w st) option" where
  "ListAccounts E accessToken s = ListAccounts_loop E accessToken [] None s"

partial_function (option) ListRoles_loop ::
  "'w env \<Rightarrow> string \<Rightarrow> string \<Rightarrow> RoleInfo list \<Rightarrow> string option \<Rightarrow> 'w st
     \<Rightarrow> ((RoleInfo list \<times> string option) \<times> 'w st) option" where
  "ListRoles_loop E accessToken accountId allRoles nextToken s =
     (case call (Call_ListAccountRoles accessToken accountId nextToken)
             (client_ListAccountRoles E accessToken accountId nextToken) s of
        (Inl err, s1) \<Rightarrow> Some (([], Some err), s1)
      | (Inr result, s1) \<Rightarrow>
          (case RolesNextToken result of
             None \<Rightarrow> Some ((allRoles @ RoleList result, None), s1)
           | Some t \<Rightarrow> ListRoles_loop E accessToken accountId (allRoles @ RoleList result) (Some t) s1))"

declare ListRoles_loop.simps [code]

definition ListRoles ::
  "'w env \<Rightarrow> string \<Rightarrow> string \<Rightarrow> 'w st \<Rightarrow> ((RoleInfo list \<times> string option) \<times> 'w st) option" where
  "ListRoles E accessToken accountId s = ListRoles_loop E accessToken accountId [] None s"

section \<open>Selection of the account and of the role\<close>

text \<open>
  \<^verbatim>\<open>sort.Slice(xs, less)\<close>, with \<^verbatim>\<open>less\<close> comparing the names with Go's \<^verbatim>\<open><\<close> on strings
  (bytewise lexicographic, the order of \<^typ>\<open>string\<close> here): the slice rearranged as the
  library decides.
\<close>

definition sort_by_name :: "'w env \<Rightarrow> ('a \<Rightarrow> string) \<Rightarrow> 'a list \<Rightarrow> 'a list" where
  "sort_by_name E name xs = map (\<lambda>i. xs ! i) (sort_Slice E (map name xs))"

text \<open>
  The scan \<^verbatim>\<open>for i, x := range xs { if strings.EqualFold(*x.Name, hint) { ...; break } }\<close>:
  the first entry whose name matches, with its index; \<open>None\<close> when the loop ends without
  a match and the index variable keeps its initial \<^verbatim>\<open>-1\<close>.
\<close>

fun scan_names ::
  "(string \<Rightarrow> string \<Rightarrow> bool) \<Rightarrow> ('a \<Rightarrow> string) \<Rightarrow> string \<Rightarrow> 'a list \<Rightarrow> int \<Rightarrow> ('a \<times> int) option" where
  "scan_names eqFold name hint [] i = None"
| "scan_names eqFold name hint (x # xs) i =
     (if eqFold (name x) hint then Some (x, i) else scan_names eqFold name hint xs (i + 1))"

text \<open>Indexing a slice: Go panics when the index is out of range.\<close>

definition index_slice :: "'a list \<Rightarrow> int \<Rightarrow> failure + 'a" where
  "index_slice xs i =
     (if i < 0 \<or> int (length xs) \<le> i then Inl (Panic ''index out of range'') else Inr (xs ! nat i))"

definition check_mark :: string where
  "check_mark = [CHR 0xE2, CHR 0x9C, CHR 0x93]"

definition account_option :: "AccountInfo \<Rightarrow> string" where
  "account_option account = AccountName account @ '' ('' @ AccountId account @ '')''"

text \<open>
  \<^verbatim>\<open>handleAccountRoleSelection\<close> is one function of four consecutive parts, modelled one by
  one and composed below. \<open>selectAccount\<close> is its first part, from the sort of the accounts
  to the line that prints the selected account.

  Go keeps the selected account and its index in two variables, set together by the scan;
  here both come from \<open>found\<close>. The chooser declares variables of its own for the index and
  the error (\<^verbatim>\<open>:=\<close>) and assigns the selected account of the function. Reading a selected
  account that was never set would read a nil name; that branch cannot be reached, since
  the index is \<^verbatim>\<open>-1\<close> exactly when nothing was found.
\<close>

definition selectAccount ::
  "'w env \<Rightarrow> AccountInfo list \<Rightarrow> string \<Rightarrow> 'w st \<Rightarrow> (failure + AccountInfo) \<times> 'w st" where
  "selectAccount E accounts0 accountName s =
     (let accounts = sort_by_name E AccountName accounts0;
          found = (if accountName \<noteq> [] then scan_names (EqualFold E) AccountName accountName accounts 0
                   else None);
          selectedAccountIndex = (case found of None \<Rightarrow> - 1 | Some (account, i) \<Rightarrow> i);
          s1 = (if accountName \<noteq> [] then
                  (case found of
                     None \<Rightarrow> Printf (''Account '' @ [CHR 0x27] @ accountName @ [CHR 0x27]
                                      @ '' not found. Available accounts:\<newline>\<newline>'') s
                   | Some (account, i) \<Rightarrow>
                       Printf (''Found account: '' @ AccountName account @ ''\<newline>'') s)
                else s)
      in if accountName = [] \<or> selectedAccountIndex = - 1 then
           (let accountOptions = map account_option accounts in
            case call (Call_RunSelector ''Select AWS Account:'' accountOptions)
                   (RunSelector E ''Select AWS Account:'' accountOptions) s1 of
              ((idx, Some err), s2) \<Rightarrow> (Inl (Error (''error selecting account: '' @ err)), s2)
            | ((idx, None), s2) \<Rightarrow>
                if idx = - 1 then (Inl (Error ''no account selected''), s2)
                else (case index_slice accounts idx of
                        Inl p \<Rightarrow> (Inl p, s2)
                      | Inr selectedAccount \<Rightarrow>
                          (Inr selectedAccount,
                           Printf (check_mark @ '' Selected: '' @ AccountName selectedAccount
                                   @ ''\<newline>'') s2)))
         else
           (case found of
              None \<Rightarrow> (Inl (Panic ''nil pointer dereference''), s1)
            | Some (selectedAccount, i) \<Rightarrow>
                (Inr selectedAccount,
                 Printf (check_mark @ '' Selected: '' @ AccountName selectedAccount @ ''\<newline>'') s1)))"

text \<open>
  \<open>selectRole\<close> is the third part, from the sort of the roles to the line that prints the
  selected role.
\<close>

definition selectRole ::
  "'w env \<Rightarrow> AccountInfo \<Rightarrow> RoleInfo list \<Rightarrow> string \<Rightarrow> 'w st \<Rightarrow> (failure + RoleInfo) \<times> 'w st" where
  "selectRole E selectedAccount roles0 roleName s =
     (let roles = sort_by_name E RoleName roles0;
          found = (if roleName \<noteq> [] then scan_names (EqualFold E) RoleName roleName roles 0
                   else None);
          selectedRoleIndex = (case found of None \<Rightarrow> - 1 | Some (role, i) \<Rightarrow> i);
          s1 = (if roleName \<noteq> [] then
                  (case found of
                     None \<Rightarrow> Printf (''Role '' @ [CHR 0x27] @ roleName @ [CHR 0x27]
                                      @ '' not found in account '' @ AccountName selectedAccount
                                      @ ''. Available roles:\<newline>\<newline>'') s
                   | Some (role, i) \<Rightarrow> Printf (''Found role: '' @ RoleName role @ ''\<newline>'') s)
                else s)
      in if roleName = [] \<or> selectedRoleIndex = - 1 then
           (let roleOptions = map RoleName roles;
                title = ''Select role for '' @ AccountName selectedAccount @ '':'' in
            case call (Call_RunSelector title roleOptions) (RunSelector E title roleOptions) s1 of
              ((idx, Some err), s2) \<Rightarrow> (Inl (Error (''error selecting role: '' @ err)), s2)
            | ((idx, None), s2) \<Rightarrow>
                if idx = - 1 then (Inl (Error ''no role selected''), s2)
                else (case index_slice roles idx of
                        Inl p \<Rightarrow> (Inl p, s2)
                      | Inr selectedRole \<Rightarrow>
                          (Inr selectedRole,
                           Printf (check_mark @ '' Selected: '' @ RoleName selectedRole
                                   @ ''\<newline>'') s2)))
         else
           (case found of
              None \<Rightarrow> (Inl (Panic ''nil pointer dereference''), s1)
            | Some (selectedRole, i) \<Rightarrow>
                (Inr selectedRole,
                 Printf (check_mark @ '' Selected: '' @ RoleName selectedRole @ ''\<newline>'') s1)))"

text \<open>
  \<open>completeLogin\<close> is the last part: the credentials of the role, the profile, the session of
  the shell (the parent process), the sweep of stale sessions, whose result is thrown away
  (\<^verbatim>\<open>_ = awscconfig.CleanupStaleSessions()\<close>), and the closing lines.
\<close>

definition completeLogin ::
  "'w env \<Rightarrow> string \<Rightarrow> AccountInfo \<Rightarrow> RoleInfo \<Rightarrow> 'w st \<Rightarrow> failure option \<times> 'w st" where
  "completeLogin E accessToken selectedAccount selectedRole s =
     (case call (Call_GetRoleCredentials accessToken (AccountId selectedAccount) (RoleName selectedRole))
             (client_GetRoleCredentials E accessToken (AccountId selectedAccount) (RoleName selectedRole)) s of
        (Inl err, s1) \<Rightarrow> (Some (Error (''error getting role credentials: '' @ err)), s1)
      | (Inr creds, s1) \<Rightarrow>
          (case call (Call_WriteProfile (AccountName selectedAccount) (AccountId selectedAccount)
                        (RoleName selectedRole) creds)
                  (WriteProfile E (AccountName selectedAccount) (AccountId selectedAccount)
                        (RoleName selectedRole) creds) s1 of
             (Inl err, s2) \<Rightarrow> (Some (Error (''error writing profile: '' @ err)), s2)
           | (Inr profileName, s2) \<Rightarrow>
               (let ppid = Getppid E (fst s2) in
                case call (Call_SaveSession ppid profileName (AccountId selectedAccount)
                             (AccountName selectedAccount) (RoleName selectedRole))
                       (SaveSession E ppid profileName (AccountId selectedAccount)
                             (AccountName selectedAccount) (RoleName selectedRole)) s2 of
                  (Some err, s3) \<Rightarrow> (Some (Error (''error saving session: '' @ err)), s3)
                | (None, s3) \<Rightarrow>
                    (case call Call_CleanupStaleSessions (CleanupStaleSessions E) s3 of
                       (ignored, s4) \<Rightarrow>
                         (None,
                          Printf (''export AWS_REGION='' @ default_region E @ ''\<newline>'')
                           (Printf (''export AWS_PROFILE='' @ profileName @ ''\<newline>'')
                             (Printf ''\<newline>To use in this terminal:\<newline>''
                               (Printf (''\<newline>Successfully authenticated to ''
                                        @ AccountName selectedAccount @ '' (''
                                        @ AccountId selectedAccount @ '') as ''
                                        @ RoleName selectedRole @ ''\<newline>'') s4))))))))"

text \<open>
  The whole of \<^verbatim>\<open>handleAccountRoleSelection\<close>; its second part, between the two selections,
  lists the roles of the selected account.
\<close>

definition handleAccountRoleSelection ::
  "'w env \<Rightarrow> string \<Rightarrow> AccountInfo list \<Rightarrow> string \<Rightarrow> string \<Rightarrow> 'w st
     \<Rightarrow> (failure option \<times> 'w st) option" where
  "handleAccountRoleSelection E accessToken accounts accountName roleName s =
     (case selectAccount E accounts accountName s of
        (Inl f, s1) \<Rightarrow> Some (Some f, s1)
      | (Inr selectedAccount, s1) \<Rightarrow>
          (case ListRoles E accessToken (AccountId selectedAccount) s1 of
             None \<Rightarrow> None
           | Some ((roles, Some err), s2) \<Rightarrow> Some (Some (Error (''error listing roles: '' @ err)), s2)
           | Some ((roles, None), s2) \<Rightarrow>
               if length roles = 0 then Some (Some (Error ''no roles found for this account''), s2)
               else (case selectRole E selectedAccount roles roleName s2 of
                       (Inl f, s3) \<Rightarrow> Some (Some f, s3)
                     | (Inr selectedRole, s3) \<Rightarrow>
                         Some (completeLogin E accessToken selectedAccount selectedRole s3))))"

section \<open>The login workflow\<close>

text \<open>
  The account cache is saved after a successful listing; a failure of that write is
  printed as a warning and the login goes on.
\<close>

definition saveAccountCache_warn :: "'w env \<Rightarrow> AccountInfo list \<Rightarrow> 'w st \<Rightarrow> 'w st" where
  "saveAccountCache_warn E accounts s =
     (case call (Call_SaveAccountCache accounts) (SaveAccountCache E accounts) s of
        (Some err, s1) \<Rightarrow> Printf (''Warning: failed to save account cache: '' @ err @ ''\<newline>'') s1
      | (None, s1) \<Rightarrow> s1)"

text \<open>
  The second half of \<^verbatim>\<open>RunLogin\<close>, from \<^verbatim>\<open>Starting SSO authentication...\<close> to its end:
  authenticate, read the fresh token, list the accounts, select.
\<close>

definition reauthenticate ::
  "'w env \<Rightarrow> string \<Rightarrow> string \<Rightarrow> 'w st \<Rightarrow> (failure option \<times> 'w st) option" where
  "reauthenticate E accountName roleName s =
     (case call (Call_Authenticate (sso_start_url E) (sso_region E))
             (Authenticate E (sso_start_url E) (sso_region E))
             (Printf ''Starting SSO authentication...\<newline>'' s) of
        (Some err, s1) \<Rightarrow> Some (Some (Error (''SSO authentication failed: '' @ err)), s1)
      | (None, s1) \<Rightarrow>
          (case call Call_GetCachedToken (GetCachedToken E) s1 of
             (Inl err, s2) \<Rightarrow> Some (Some (Error (''failed to get access token: '' @ err)), s2)
           | (Inr accessToken, s2) \<Rightarrow>
               (case ListAccounts E accessToken s2 of
                  None \<Rightarrow> None
                | Some ((accounts, Some err), s3) \<Rightarrow>
                    Some (Some (Error (''error listing accounts: '' @ err)), s3)
                | Some ((accounts, None), s3) \<Rightarrow>
                    if length accounts = 0 then Some (Some (Error ''no accounts found''), s3)
                    else handleAccountRoleSelection E accessToken accounts accountName roleName
                           (saveAccountCache_warn E accounts s3))))"

definition RunLogin ::
  "'w env \<Rightarrow> bool \<Rightarrow> string \<Rightarrow> string \<Rightarrow> 'w st \<Rightarrow> (failure option \<times> 'w st) option" where
  "RunLogin E force accountName roleName s =
     (if sso_start_url E = [] then
        Some (Some (Error (''no SSO configuration found. Please run '' @ [CHR 0x27]
                           @ ''awsc config init'' @ [CHR 0x27] @ '' first'')), s)
      else
        (case call Call_NewCredentialsManager (NewCredentialsManager E) s of
           (Some err, s1) \<Rightarrow> Some (Some (Error (''failed to create credentials manager: '' @ err)), s1)
         | (None, s1) \<Rightarrow>
             if \<not> force then
               (case call Call_GetCachedToken (GetCachedToken E) s1 of
                  (Inl err, s2) \<Rightarrow> reauthenticate E accountName roleName s2
                | (Inr accessToken, s2) \<Rightarrow>
                    (case ListAccounts E accessToken s2 of
                       None \<Rightarrow> None
                     | Some ((accounts, listErr), s3) \<Rightarrow>
                         if listErr = None \<and> length accounts > 0 then
                           handleAccountRoleSelection E accessToken accounts accountName roleName
                             (saveAccountCache_warn E accounts s3)
                         else reauthenticate E accountName roleName s3))
             else reauthenticate E accountName roleName s1))"

section \<open>Notions used to state the properties\<close>

text \<open>
  What \<^verbatim>\<open>sort.Slice\<close> promises: the result is a rearrangement of the slice (every original
  position occurs once) and is ascending in the comparison, here the names in Go's string
  order. Its documentation promises no more: the sort is not guaranteed to be stable.
\<close>

definition sort_Slice_contract :: "(string list \<Rightarrow> nat list) \<Rightarrow> bool" where
  "sort_Slice_contract f \<longleftrightarrow>
     (\<forall>names. mset (f names) = mset [0..<length names] \<and> sorted (map (\<lambda>i. names ! i) (f names)))"

text \<open>The chooser prompts of a trace, with the options shown, in order.\<close>

fun selector_calls :: "event list \<Rightarrow> (string \<times> string list) list" where
  "selector_calls [] = []"
| "selector_calls (Call_RunSelector title options # tr) = (title, options) # selector_calls tr"
| "selector_calls (e # tr) = selector_calls tr"

text \<open>The number of authentication handshakes of a trace.\<close>

fun auth_count :: "event list \<Rightarrow> nat" where
  "auth_count [] = 0"
| "auth_count (Call_Authenticate url region # tr) = Suc (auth_count tr)"
| "auth_count (e # tr) = auth_count tr"

text \<open>
  The number of account listings of a trace: every run of \<^verbatim>\<open>ListAccounts\<close> asks for its
  first page without a continuation token, and for every later page with one.
\<close>

fun listing_count :: "event list \<Rightarrow> nat" where
  "listing_count [] = 0"
| "listing_count (Call_ListAccounts accessToken None # tr) = Suc (listing_count tr)"
| "listing_count (e # tr) = listing_count tr"

text \<open>
  The trace \<open>tr'\<close> continues the trace \<open>tr\<close> by events among which there is no handshake
  and \<open>k\<close> account listings.
\<close>

definition continues :: "event list \<Rightarrow> nat \<Rightarrow> event list \<Rightarrow> bool" where
  "continues tr k tr' \<longleftrightarrow> (\<exists>d. tr' = tr @ d \<and> auth_count d = 0 \<and> listing_count d = k)"

text \<open>The events of a trace from its first authentication handshake on.\<close>

fun since_auth :: "event list \<Rightarrow> event list" where
  "since_auth [] = []"
| "since_auth (Call_Authenticate url region # tr) = Call_Authenticate url region # tr"
| "since_auth (e # tr) = since_auth tr"

text \<open>
  A provider serves the pages \<open>pages\<close>, starting from the world \<open>w\<close> at the continuation
  token \<open>nextToken\<close>: every fetch succeeds with the next page, and exactly the last page
  carries no continuation token.
\<close>

fun serves_accounts ::
  "'w env \<Rightarrow> string \<Rightarrow> string option \<Rightarrow> 'w \<Rightarrow> AccountInfo list list \<Rightarrow> bool" where
  "serves_accounts E accessToken nextToken w [] = False"
| "serves_accounts E accessToken nextToken w (page # pages) =
     (case client_ListAccounts E accessToken nextToken w of
        (Inl err, w1) \<Rightarrow> False
      | (Inr result, w1) \<Rightarrow>
          AccountList result = page \<and>
          (case AccountsNextToken result of
             None \<Rightarrow> pages = []
           | Some t \<Rightarrow> pages \<noteq> [] \<and> serves_accounts E accessToken (Some t) w1 pages))"

fun serves_roles ::
  "'w env \<Rightarrow> string \<Rightarrow> string \<Rightarrow> string option \<Rightarrow> 'w \<Rightarrow> RoleInfo list list \<Rightarrow> bool" where
  "serves_roles E accessToken accountId nextToken w [] = False"
| "serves_roles E accessToken accountId nextToken w (page # pages) =
     (case client_ListAccountRoles E accessToken accountId nextToken w of
        (Inl err, w1) \<Rightarrow> False
      | (Inr result, w1) \<Rightarrow>
          RoleList result = page \<and>
          (case RolesNextToken result of
             None \<Rightarrow> pages = []
           | Some t \<Rightarrow> pages \<noteq> [] \<and> serves_roles E accessToken accountId (Some t) w1 pages))"

text \<open>
  A provider serves the pages \<open>pages\<close>, each with a continuation token, and then fails the
  next fetch with the error \<open>err\<close>.
\<close>

fun fails_accounts_after ::
  "'w env \<Rightarrow> string \<Rightarrow> string option \<Rightarrow> 'w \<Rightarrow> AccountInfo list list \<Rightarrow> string \<Rightarrow> bool" where
  "fails_accounts_after E accessToken nextToken w [] err =
     (case client_ListAccounts E accessToken nextToken w of
        (Inl e, w1) \<Rightarrow> e = err
      | (Inr result, w1) \<Rightarrow> False)"
| "fails_accounts_after E accessToken nextToken w (page # pages) err =
     (case client_ListAccounts E accessToken nextToken w of
        (Inl e, w1) \<Rightarrow> False
      | (Inr result, w1) \<Rightarrow>
          AccountList result = page \<and>
          (case AccountsNextToken result of
             None \<Rightarrow> False
           | Some t \<Rightarrow> fails_accounts_after E accessToken (Some t) w1 pages err))"

fun fails_roles_after ::
  "'w env \<Rightarrow> string \<Rightarrow> string \<Rightarrow> string option \<Rightarrow> 'w \<Rightarrow> RoleInfo list list \<Rightarrow> string \<Rightarrow> bool" where
  "fails_roles_after E accessToken accountId nextToken w [] err =
     (case client_ListAccountRoles E accessToken accountId nextToken w of
        (Inl e, w1) \<Rightarrow> e = err
      | (Inr result, w1) \<Rightarrow> False)"
| "fails_roles_after E accessToken accountId nextToken w (page # pages) err =
     (case client_ListAccountRoles E accessToken accountId nextToken w of
        (Inl e, w1) \<Rightarrow> False
      | (Inr result, w1) \<Rightarrow>
          RoleList result = page \<and>
          (case RolesNextToken result of
             None \<Rightarrow> False
           | Some t \<Rightarrow> fails_roles_after E accessToken accountId (Some t) w1 pages err))"

text \<open>
  The first half of \<^verbatim>\<open>RunLogin\<close> without \<^verbatim>\<open>--force\<close> succeeds from the world \<open>w\<close>: the
  configuration is there, the credentials manager is created, the cached token is read
  and the listing made with it (in the state of the run at that point) returns without
  error and is not empty.
\<close>

definition cached_token_works :: "'w env \<Rightarrow> 'w \<Rightarrow> bool" where
  "cached_token_works E w \<longleftrightarrow>
     sso_start_url E \<noteq> [] \<and>
     (case NewCredentialsManager E w of
        (Some err, w1) \<Rightarrow> False
      | (None, w1) \<Rightarrow>
          (case GetCachedToken E w1 of
             (Inl err, w2) \<Rightarrow> False
           | (Inr accessToken, w2) \<Rightarrow>
               (case ListAccounts E accessToken (w2, [Call_NewCredentialsManager, Call_GetCachedToken]) of
                  None \<Rightarrow> False
                | Some ((accounts, listErr), s3) \<Rightarrow> listErr = None \<and> accounts \<noteq> [])))"

text \<open>
  The handshake succeeds from the world \<open>w\<close> and the fresh token can then be read.
\<close>

definition fresh_token_obtained :: "'w env \<Rightarrow> 'w \<Rightarrow> bool" where
  "fresh_token_obtained E w \<longleftrightarrow>
     (case Authenticate E (sso_start_url E) (sso_region E) w of
        (Some err, w1) \<Rightarrow> False
      | (None, w1) \<Rightarrow> (case GetCachedToken E w1 of (Inl err, w2) \<Rightarrow> False | (Inr t, w2) \<Rightarrow> True))"

section \<open>A scripted world, to run the workflow on concrete inputs\<close>

text \<open>
  The world holds the token cache and the script of what the collaborators will answer:
  the outcome of the handshake, the pages of the provider for each access token and for
  each account id (a failing fetch is \<open>Inl\<close>; nothing is served for a key that is absent), the
  picks of the operator at the chooser (none left: the operator aborts), and the errors of
  the session store and of the sweep of stale sessions.
\<close>

record world =
  token_cache :: "string option"
  handshake :: "string + string"
  accounts_of :: "(string \<times> (string + AccountInfo list) list) list"
  roles_of :: "(string \<times> (string + RoleInfo list) list) list"
  operator :: "int list"
  session_store_error :: "string option"
  sweep_error :: "string option"

text \<open>
  The page a continuation token stands for is the length of the token; the first page is
  asked for without a token.
\<close>

definition page_at :: "(string + 'a list) list \<Rightarrow> string option \<Rightarrow> string + ('a list \<times> string option)" where
  "page_at pages nextToken =
     (let i = (case nextToken of None \<Rightarrow> 0 | Some t \<Rightarrow> length t) in
      if i < length pages then
        (case pages ! i of
           Inl err \<Rightarrow> Inl err
         | Inr xs \<Rightarrow> Inr (xs, if i + 1 < length pages then Some (replicate (i + 1) CHR ''p'') else None))
      else Inl ''invalid token'')"

definition pages_for :: "(string \<times> (string + 'a list) list) list \<Rightarrow> string \<Rightarrow> (string + 'a list) list" where
  "pages_for script key = (case map_of script key of None \<Rightarrow> [] | Some pages \<Rightarrow> pages)"

text \<open>Two ways to sort positions by name: keeping and reversing the order of equal names.\<close>

definition stable_positions :: "string list \<Rightarrow> nat list" where
  "stable_positions names = sort_key (\<lambda>i. names ! i) [0..<length names]"


text \<open>Equality of names up to the case of the ASCII letters.\<close>

definition ascii_lower :: "char \<Rightarrow> char" where
  "ascii_lower c =
     (if CHR ''A'' \<le> c \<and> c \<le> CHR ''Z'' then char_of (of_char c + (32 :: nat)) else c)"

definition ascii_EqualFold :: "string \<Rightarrow> string \<Rightarrow> bool" where
  "ascii_EqualFold a b \<longleftrightarrow> map ascii_lower a = map ascii_lower b"

definition scripted :: "world env" where
  "scripted =
     \<lparr> sso_start_url = ''https://example.awsapps.com/start'',
       sso_region = ''eu-west-1'',
       default_region = ''eu-west-1'',
       NewCredentialsManager = (\<lambda>w. (None, w)),
       GetCachedToken =
         (\<lambda>w. (case token_cache w of None \<Rightarrow> Inl ''no active session'' | Some t \<Rightarrow> Inr t, w)),
       Authenticate =
         (\<lambda>url region w. case handshake w of
                            Inl err \<Rightarrow> (Some err, w)
                          | Inr t \<Rightarrow> (None, w\<lparr>token_cache := Some t\<rparr>)),
       SaveAccountCache = (\<lambda>accounts w. (None, w)),
       client_ListAccounts =
         (\<lambda>accessToken nextToken w.
            (case page_at (pages_for (accounts_of w) accessToken) nextToken of
               Inl err \<Rightarrow> Inl err
             | Inr (xs, t) \<Rightarrow> Inr \<lparr>AccountList = xs, AccountsNextToken = t\<rparr>, w)),
       client_ListAccountRoles =
         (\<lambda>accessToken accountId nextToken w.
            (case page_at (pages_for (roles_of w) accountId) nextToken of
               Inl err \<Rightarrow> Inl err
             | Inr (xs, t) \<Rightarrow> Inr \<lparr>RoleList = xs, RolesNextToken = t\<rparr>, w)),
       client_GetRoleCredentials =
         (\<lambda>accessToken accountId roleName w.
            (Inr \<lparr>AccessKeyId = ''AKIA'', SecretAccessKey = ''secret'', SessionToken = ''session'',
                  Expiration = 0\<rparr>, w)),
       RunSelector =
         (\<lambda>title options w. case operator w of
                              [] \<Rightarrow> ((- 1, None), w)
                            | i # picks \<Rightarrow> ((i, None), w\<lparr>operator := picks\<rparr>)),
       WriteProfile = (\<lambda>accountName accountId roleName creds w. (Inr (accountName @ ''-'' @ roleName), w)),
       Getppid = (\<lambda>w. 500),
       SaveSession = (\<lambda>ppid profileName accountId accountName roleName w. (session_store_error w, w)),
       CleanupStaleSessions = (\<lambda>w. (sweep_error w, w)),
       sort_Slice = stable_positions,
       EqualFold = ascii_EqualFold \<rparr>"

definition Dev_account :: AccountInfo where
  "Dev_account = \<lparr>AccountId = ''111'', AccountName = ''Dev''\<rparr>"

definition Prod_account :: AccountInfo where
  "Prod_account = \<lparr>AccountId = ''222'', AccountName = ''Prod''\<rparr>"


definition Admin_role :: RoleInfo where
  "Admin_role = \<lparr>RoleName = ''Admin'', RoleAccountId = ''111''\<rparr>"

definition ReadOnly_role :: RoleInfo where
  "ReadOnly_role = \<lparr>RoleName = ''ReadOnly'', RoleAccountId = ''111''\<rparr>"


text \<open>
  A world with a valid cached token, the accounts and the roles on two pages each, an
  operator who picks the second entry, then the first, and stores that work.
\<close>

definition office :: world where
  "office =
     \<lparr> token_cache = Some ''cached'',
       handshake = Inr ''fresh'',
       accounts_of = [(''cached'', [Inr [Prod_account], Inr [Dev_account]]),
                      (''fresh'', [Inr [Prod_account], Inr [Dev_account]])],
       roles_of = [(''111'', [Inr [ReadOnly_role], Inr [Admin_role]]),
                   (''222'', [Inr [ReadOnly_role], Inr [Admin_role]])],
       operator = [1, 0],
       session_store_error = None,
       sweep_error = None \<rparr>"

section \<open>Paging\<close>

lemma ListAccounts_loop_serves:
  "serves_accounts E tok nt (fst s) pages \<Longrightarrow>
   \<exists>s'. ListAccounts_loop E tok acc nt s = Some ((acc @ concat pages, None), s')"
proof (induction pages arbitrary: acc nt s)
  case Nil
  then show ?case by simp
next
  case (Cons page pages)
  obtain r w1 where r: "client_ListAccounts E tok nt (fst s) = (r, w1)"
    by (cases "client_ListAccounts E tok nt (fst s)")
  with Cons.prems obtain result where res: "r = Inr result" "AccountList result = page"
    by (cases r) auto
  show ?case
  proof (cases "AccountsNextToken result")
    case None
    with Cons.prems r res have "pages = []" by simp
    with None r res show ?thesis
      by (subst ListAccounts_loop.simps) (simp add: call_def)
  next
    case (Some t)
    with Cons.prems r res have "serves_accounts E tok (Some t) w1 pages" by simp
    then have "serves_accounts E tok (Some t) (fst (w1, snd s @ [Call_ListAccounts tok nt])) pages"
      by simp
    from Cons.IH [OF this, of "acc @ page"] Some r res show ?thesis
      by (subst ListAccounts_loop.simps) (simp add: call_def)
  qed
qed

lemma ListAccounts_loop_fails:
  "fails_accounts_after E tok nt (fst s) pages err \<Longrightarrow>
   \<exists>s'. ListAccounts_loop E tok acc nt s = Some (([], Some err), s')"
proof (induction pages arbitrary: acc nt s)
  case Nil
  then show ?case
    by (subst ListAccounts_loop.simps) (auto simp: call_def split: prod.splits sum.splits)
next
  case (Cons page pages)
  obtain r w1 where r: "client_ListAccounts E tok nt (fst s) = (r, w1)"
    by (cases "client_ListAccounts E tok nt (fst s)")
  with Cons.prems obtain result where res: "r = Inr result" "AccountList result = page"
    by (cases r) auto
  with Cons.prems r obtain t where t: "AccountsNextToken result = Some t"
    "fails_accounts_after E tok (Some t) w1 pages err"
    by (cases "AccountsNextToken result") auto
  then have "fails_accounts_after E tok (Some t) (fst (w1, snd s @ [Call_ListAccounts tok nt])) pages err"
    by simp
  from Cons.IH [OF this, of "acc @ page"] t r res show ?case
    by (subst ListAccounts_loop.simps) (simp add: call_def)
qed

lemma ListRoles_loop_serves:
  "serves_roles E tok aid nt (fst s) pages \<Longrightarrow>
   \<exists>s'. ListRoles_loop E tok aid acc nt s = Some ((acc @ concat pages, None), s')"
proof (induction pages arbitrary: acc nt s)
  case Nil
  then show ?case by simp
next
  case (Cons page pages)
  obtain r w1 where r: "client_ListAccountRoles E tok aid nt (fst s) = (r, w1)"
    by (cases "client_ListAccountRoles E tok aid nt (fst s)")
  with Cons.prems obtain result where res: "r = Inr result" "RoleList result = page"
    by (cases r) auto
  show ?case
  proof (cases "RolesNextToken result")
    case None
    with Cons.prems r res have "pages = []" by simp
    with None r res show ?thesis
      by (subst ListRoles_loop.simps) (simp add: call_def)
  next
    case (Some t)
    with Cons.prems r res have "serves_roles E tok aid (Some t) w1 pages" by simp
    then have "serves_roles E tok aid (Some t) (fst (w1, snd s @ [Call_ListAccountRoles tok aid nt])) pages"
      by simp
    from Cons.IH [OF this, of "acc @ page"] Some r res show ?thesis
      by (subst ListRoles_loop.simps) (simp add: call_def)
  qed
qed

lemma ListRoles_loop_fails:
  "fails_roles_after E tok aid nt (fst s) pages err \<Longrightarrow>
   \<exists>s'. ListRoles_loop E tok aid acc nt s = Some (([], Some err), s')"
proof (induction pages arbitrary: acc nt s)
  case Nil
  then show ?case
    by (subst ListRoles_loop.simps) (auto simp: call_def split: prod.splits sum.splits)
next
  case (Cons page pages)
  obtain r w1 where r: "client_ListAccountRoles E tok aid nt (fst s) = (r, w1)"
    by (cases "client_ListAccountRoles E tok aid nt (fst s)")
  with Cons.prems obtain result where res: "r = Inr result" "RoleList result = page"
    by (cases r) auto
  with Cons.prems r obtain t where t: "RolesNextToken result = Some t"
    "fails_roles_after E tok aid (Some t) w1 pages err"
    by (cases "RolesNextToken result") auto
  then have "fails_roles_after E tok aid (Some t) (fst (w1, snd s @ [Call_ListAccountRoles tok aid nt])) pages err"
    by simp
  from Cons.IH [OF this, of "acc @ page"] t r res show ?case
    by (subst ListRoles_loop.simps) (simp add: call_def)
qed

section \<open>Sorting, scanning and choosing\<close>

lemma sort_by_name_mset:
  assumes "sort_Slice_contract (sort_Slice E)"
  shows "mset (sort_by_name E name xs) = mset xs"
proof -
  from assms have "mset (sort_Slice E (map name xs)) = mset [0..<length xs]"
    by (simp add: sort_Slice_contract_def)
  then have "mset (map (\<lambda>i. xs ! i) (sort_Slice E (map name xs))) = mset (map (\<lambda>i. xs ! i) [0..<length xs])"
    by (metis mset_map)
  then show ?thesis
    by (simp add: sort_by_name_def map_nth)
qed

lemma sort_by_name_set:
  "sort_Slice_contract (sort_Slice E) \<Longrightarrow> set (sort_by_name E name xs) = set xs"
  by (metis sort_by_name_mset set_mset_mset)

lemma sort_by_name_sorted:
  assumes "sort_Slice_contract (sort_Slice E)"
  shows "sorted (map name (sort_by_name E name xs))"
proof -
  let ?p = "sort_Slice E (map name xs)"
  from assms have p: "mset ?p = mset [0..<length xs]" and s: "sorted (map (\<lambda>i. map name xs ! i) ?p)"
    by (simp_all add: sort_Slice_contract_def)
  from p have "set ?p = {0..<length xs}"
    by (metis set_mset_mset set_upt)
  then have "map (\<lambda>i. map name xs ! i) ?p = map name (sort_by_name E name xs)"
    by (auto simp: sort_by_name_def)
  with s show ?thesis by simp
qed

lemma scan_names_find:
  "scan_names eq name hint xs i =
     (case find (\<lambda>x. eq (name x) hint) xs of
        None \<Rightarrow> None
      | Some x \<Rightarrow> Some (x, i + int (length (takeWhile (\<lambda>x. \<not> eq (name x) hint) xs))))"
  by (induction xs arbitrary: i) (auto split: option.splits)

lemma find_no_match: "find P xs = None \<longleftrightarrow> (\<forall>x\<in>set xs. \<not> P x)"
  by (induction xs) auto

lemma find_SomeD: "find P xs = Some x \<Longrightarrow> x \<in> set xs \<and> P x"
  by (induction xs) (auto split: if_splits)

lemma stable_positions_contract: "sort_Slice_contract stable_positions"
  unfolding sort_Slice_contract_def stable_positions_def
  by simp


lemma selector_calls_append [simp]: "selector_calls (xs @ ys) = selector_calls xs @ selector_calls ys"
  by (induction xs rule: selector_calls.induct) simp_all

lemma selectAccount_match:
  assumes "hint \<noteq> []"
    and "find (\<lambda>x. EqualFold E (AccountName x) hint) (sort_by_name E AccountName accounts) = Some a"
  shows "selectAccount E accounts hint s =
           (Inr a, (fst s, snd s @ [Print (''Found account: '' @ AccountName a @ ''\<newline>''),
                                    Print (check_mark @ '' Selected: '' @ AccountName a @ ''\<newline>'')]))"
  using assms by (simp add: selectAccount_def scan_names_find Printf_def Let_def)

lemma selectRole_match:
  assumes "hint \<noteq> []"
    and "find (\<lambda>x. EqualFold E (RoleName x) hint) (sort_by_name E RoleName roles) = Some r"
  shows "selectRole E account roles hint s =
           (Inr r, (fst s, snd s @ [Print (''Found role: '' @ RoleName r @ ''\<newline>''),
                                    Print (check_mark @ '' Selected: '' @ RoleName r @ ''\<newline>'')]))"
  using assms by (simp add: selectRole_def scan_names_find Printf_def Let_def)

lemma selectAccount_chooser:
  assumes "hint = [] \<or> find (\<lambda>x. EqualFold E (AccountName x) hint) (sort_by_name E AccountName accounts) = None"
    and "cs = sort_by_name E AccountName accounts"
    and "tr = snd s @ (if hint = [] then [] else
            [Print (''Account '' @ [CHR 0x27] @ hint @ [CHR 0x27] @ '' not found. Available accounts:\<newline>\<newline>'')])
            @ [Call_RunSelector ''Select AWS Account:'' (map account_option cs)]"
    and "RunSelector E ''Select AWS Account:'' (map account_option cs) (fst s) = ((idx, err), w')"
  shows "selectAccount E accounts hint s =
           (case err of
              Some e \<Rightarrow> (Inl (Error (''error selecting account: '' @ e)), (w', tr))
            | None \<Rightarrow>
                if idx = - 1 then (Inl (Error ''no account selected''), (w', tr))
                else if idx < 0 \<or> int (length cs) \<le> idx then (Inl (Panic ''index out of range''), (w', tr))
                else (Inr (cs ! nat idx),
                      (w', tr @ [Print (check_mark @ '' Selected: '' @ AccountName (cs ! nat idx) @ ''\<newline>'')])))"
  using assms
  by (auto simp: selectAccount_def scan_names_find Printf_def Let_def call_def index_slice_def
           split: option.splits)

lemma selectRole_chooser:
  assumes "hint = [] \<or> find (\<lambda>x. EqualFold E (RoleName x) hint) (sort_by_name E RoleName roles) = None"
    and "cs = sort_by_name E RoleName roles"
    and "title = ''Select role for '' @ AccountName account @ '':''"
    and "tr = snd s @ (if hint = [] then [] else
            [Print (''Role '' @ [CHR 0x27] @ hint @ [CHR 0x27] @ '' not found in account ''
                    @ AccountName account @ ''. Available roles:\<newline>\<newline>'')])
            @ [Call_RunSelector title (map RoleName cs)]"
    and "RunSelector E title (map RoleName cs) (fst s) = ((idx, err), w')"
  shows "selectRole E account roles hint s =
           (case err of
              Some e \<Rightarrow> (Inl (Error (''error selecting role: '' @ e)), (w', tr))
            | None \<Rightarrow>
                if idx = - 1 then (Inl (Error ''no role selected''), (w', tr))
                else if idx < 0 \<or> int (length cs) \<le> idx then (Inl (Panic ''index out of range''), (w', tr))
                else (Inr (cs ! nat idx),
                      (w', tr @ [Print (check_mark @ '' Selected: '' @ RoleName (cs ! nat idx) @ ''\<newline>'')])))"
  using assms
  by (auto simp: selectRole_def scan_names_find Printf_def Let_def call_def index_slice_def
           split: option.splits)

lemma handle_account_failure:
  "selectAccount E accounts accountName s = (Inl f, s1) \<Longrightarrow>
   handleAccountRoleSelection E tok accounts accountName roleName s = Some (Some f, s1)"
  by (simp add: handleAccountRoleSelection_def)

lemma handle_role_failure:
  "selectAccount E accounts accountName s = (Inr account, s1) \<Longrightarrow>
   ListRoles E tok (AccountId account) s1 = Some ((roles, None), s2) \<Longrightarrow> roles \<noteq> [] \<Longrightarrow>
   selectRole E account roles roleName s2 = (Inl f, s3) \<Longrightarrow>
   handleAccountRoleSelection E tok accounts accountName roleName s = Some (Some f, s3)"
  by (simp add: handleAccountRoleSelection_def)

lemma handle_reaches_completeLogin:
  "selectAccount E accounts accountName s0 = (Inr a, s1) \<Longrightarrow>
   ListRoles E tok (AccountId a) s1 = Some ((roles, None), s2) \<Longrightarrow> roles \<noteq> [] \<Longrightarrow>
   selectRole E a roles roleName s2 = (Inr r, s) \<Longrightarrow>
   handleAccountRoleSelection E tok accounts accountName roleName s0 = Some (completeLogin E tok a r s)"
  by (simp add: handleAccountRoleSelection_def)

lemma completeLogin_session_failure:
  assumes "client_GetRoleCredentials E tok (AccountId a) (RoleName r) (fst s) = (Inr creds, w1)"
    and "WriteProfile E (AccountName a) (AccountId a) (RoleName r) creds w1 = (Inr profileName, w2)"
    and "SaveSession E (Getppid E w2) profileName (AccountId a) (AccountName a) (RoleName r) w2 = (Some err, w3)"
  shows "completeLogin E tok a r s =
           (Some (Error (''error saving session: '' @ err)),
            (w3, snd s @ [Call_GetRoleCredentials tok (AccountId a) (RoleName r),
                          Call_WriteProfile (AccountName a) (AccountId a) (RoleName r) creds,
                          Call_SaveSession (Getppid E w2) profileName (AccountId a) (AccountName a) (RoleName r)]))"
  using assms by (simp add: completeLogin_def call_def Let_def)

lemma completeLogin_success:
  assumes "client_GetRoleCredentials E tok (AccountId a) (RoleName r) (fst s) = (Inr creds, w1)"
    and "WriteProfile E (AccountName a) (AccountId a) (RoleName r) creds w1 = (Inr profileName, w2)"
    and "SaveSession E (Getppid E w2) profileName (AccountId a) (AccountName a) (RoleName r) w2 = (None, w3)"
    and "CleanupStaleSessions E w3 = (sweep, w4)"
  shows "completeLogin E tok a r s =
           (None,
            (w4, snd s @ [Call_GetRoleCredentials tok (AccountId a) (RoleName r),
                          Call_WriteProfile (AccountName a) (AccountId a) (RoleName r) creds,
                          Call_SaveSession (Getppid E w2) profileName (AccountId a) (AccountName a) (RoleName r),
                          Call_CleanupStaleSessions,
                          Print (''\<newline>Successfully authenticated to '' @ AccountName a @ '' (''
                                 @ AccountId a @ '') as '' @ RoleName r @ ''\<newline>''),
                          Print ''\<newline>To use in this terminal:\<newline>'',
                          Print (''export AWS_PROFILE='' @ profileName @ ''\<newline>''),
                          Print (''export AWS_REGION='' @ default_region E @ ''\<newline>'')]))"
  using assms by (simp add: completeLogin_def call_def Let_def Printf_def)

section \<open>Counting the calls of a run\<close>

lemma auth_count_append [simp]: "auth_count (xs @ ys) = auth_count xs + auth_count ys"
  by (induction xs rule: auth_count.induct) simp_all

lemma listing_count_append [simp]: "listing_count (xs @ ys) = listing_count xs + listing_count ys"
  by (induction xs rule: listing_count.induct) simp_all

lemma listing_count_page [simp]:
  "listing_count [Call_ListAccounts tok nt] = (if nt = None then 1 else 0)"
  by (cases nt) simp_all

lemma since_auth_append:
  "since_auth (xs @ ys) = (if auth_count xs = 0 then since_auth ys else since_auth xs @ ys)"
  by (induction xs rule: since_auth.induct) simp_all

lemma continues_refl [simp]: "continues tr 0 tr"
  by (simp add: continues_def)

lemma continues_trans: "continues a j b \<Longrightarrow> continues b k c \<Longrightarrow> continues a (j + k) c"
  by (auto simp: continues_def)

lemma continues_snoc:
  "continues tr k tr' \<Longrightarrow> auth_count [e] = 0 \<Longrightarrow> continues tr (k + listing_count [e]) (tr' @ [e])"
  by (auto simp: continues_def)

lemma continues_counts:
  "continues tr k tr' \<Longrightarrow>
     auth_count tr' = auth_count tr \<and> listing_count tr' = listing_count tr + k \<and>
     (auth_count tr \<noteq> 0 \<longrightarrow> listing_count (since_auth tr') = listing_count (since_auth tr) + k)"
  by (auto simp: continues_def since_auth_append)

lemma ListAccounts_loop_continues:
  assumes "ListAccounts_loop E tok acc nt s = Some y"
  shows "continues (snd s) (if nt = None then 1 else 0) (snd (snd y))"
  using assms
proof (induction E tok acc nt s y rule: ListAccounts_loop.raw_induct [rotated 1, consumes 1])
  case (1 loop E tok acc nt s y)
  obtain r w1 where r: "client_ListAccounts E tok nt (fst s) = (r, w1)"
    by (cases "client_ListAccounts E tok nt (fst s)")
  have one: "continues (snd s) (if nt = None then 1 else 0) (snd s @ [Call_ListAccounts tok nt])"
    using continues_snoc [OF continues_refl, of "Call_ListAccounts tok nt" "snd s"] by simp
  show ?case
  proof (cases r)
    case (Inl err)
    with 1(2) r one show ?thesis by (auto simp: call_def)
  next
    case (Inr result)
    show ?thesis
    proof (cases "AccountsNextToken result")
      case None
      with 1(2) r Inr one show ?thesis by (auto simp: call_def)
    next
      case (Some t)
      with 1(2) r Inr have "loop E tok (acc @ AccountList result) (Some t)
          (w1, snd s @ [Call_ListAccounts tok nt]) = Some y"
        by (simp add: call_def)
      from 1(1) [OF this] continues_trans [OF one] show ?thesis by fastforce
    qed
  qed
qed

lemma ListRoles_loop_continues:
  assumes "ListRoles_loop E tok aid acc nt s = Some y"
  shows "continues (snd s) 0 (snd (snd y))"
  using assms
proof (induction E tok aid acc nt s y rule: ListRoles_loop.raw_induct [rotated 1, consumes 1])
  case (1 loop E tok aid acc nt s y)
  obtain r w1 where r: "client_ListAccountRoles E tok aid nt (fst s) = (r, w1)"
    by (cases "client_ListAccountRoles E tok aid nt (fst s)")
  have one: "continues (snd s) 0 (snd s @ [Call_ListAccountRoles tok aid nt])"
    using continues_snoc [OF continues_refl, of "Call_ListAccountRoles tok aid nt" "snd s"] by simp
  show ?case
  proof (cases r)
    case (Inl err)
    with 1(2) r one show ?thesis by (auto simp: call_def)
  next
    case (Inr result)
    show ?thesis
    proof (cases "RolesNextToken result")
      case None
      with 1(2) r Inr one show ?thesis by (auto simp: call_def)
    next
      case (Some t)
      with 1(2) r Inr have "loop E tok aid (acc @ RoleList result) (Some t)
          (w1, snd s @ [Call_ListAccountRoles tok aid nt]) = Some y"
        by (simp add: call_def)
      from 1(1) [OF this] continues_trans [OF one] show ?thesis by fastforce
    qed
  qed
qed

lemma selectAccount_continues:
  "continues (snd s) 0 (snd (snd (selectAccount E accounts accountName s)))"
  by (auto simp: selectAccount_def Let_def call_def Printf_def continues_def
           split: option.splits prod.splits sum.splits)

lemma selectRole_continues:
  "continues (snd s) 0 (snd (snd (selectRole E account roles roleName s)))"
  by (auto simp: selectRole_def Let_def call_def Printf_def continues_def
           split: option.splits prod.splits sum.splits)

lemma completeLogin_continues:
  "continues (snd s) 0 (snd (snd (completeLogin E tok account role s)))"
  by (auto simp: completeLogin_def Let_def call_def Printf_def continues_def
           split: option.splits prod.splits sum.splits)

lemma saveAccountCache_warn_continues:
  "continues (snd s) 0 (snd (saveAccountCache_warn E accounts s))"
  by (auto simp: saveAccountCache_warn_def call_def Printf_def continues_def
           split: option.splits prod.splits)

lemma handle_continues:
  assumes "handleAccountRoleSelection E tok accounts accountName roleName s = Some (res, s')"
  shows "continues (snd s) 0 (snd s')"
proof -
  obtain r1 s1 where a: "selectAccount E accounts accountName s = (r1, s1)"
    by (cases "selectAccount E accounts accountName s")
  with selectAccount_continues [of s E accounts accountName] have c1: "continues (snd s) 0 (snd s1)"
    by simp
  show ?thesis
  proof (cases r1)
    case (Inl f)
    with assms a c1 show ?thesis by (simp add: handleAccountRoleSelection_def)
  next
    case (Inr account)
    with assms a obtain roles lerr s2 where
      l: "ListRoles E tok (AccountId account) s1 = Some ((roles, lerr), s2)"
      by (cases "ListRoles E tok (AccountId account) s1")
         (auto simp: handleAccountRoleSelection_def)
    from ListRoles_loop_continues [OF l [unfolded ListRoles_def]] have c2: "continues (snd s1) 0 (snd s2)"
      by simp
    from continues_trans [OF c1 c2] have c12: "continues (snd s) 0 (snd s2)" by simp
    show ?thesis
    proof (cases "lerr = None \<and> roles \<noteq> []")
      case False
      with assms a Inr l c12 show ?thesis
        by (auto simp: handleAccountRoleSelection_def split: option.splits if_splits)
    next
      case True
      obtain r3 s3 where r: "selectRole E account roles roleName s2 = (r3, s3)"
        by (cases "selectRole E account roles roleName s2")
      with selectRole_continues [of s2 E account roles roleName] have c3: "continues (snd s2) 0 (snd s3)"
        by simp
      from continues_trans [OF c12 c3] have c123: "continues (snd s) 0 (snd s3)" by simp
      show ?thesis
      proof (cases r3)
        case (Inl f)
        with assms a Inr l True r c123 show ?thesis
          by (auto simp: handleAccountRoleSelection_def)
      next
        case (Inr role)
        with assms a \<open>r1 = Inr account\<close> l True r
        have "completeLogin E tok account role s3 = (res, s')"
          by (auto simp: handleAccountRoleSelection_def)
        with completeLogin_continues [of s3 E tok account role] have "continues (snd s3) 0 (snd s')"
          by simp
        from continues_trans [OF c123 this] show ?thesis by simp
      qed
    qed
  qed
qed

lemma selectAccount_not_no_accounts:
  "selectAccount E accounts accountName s \<noteq> (Inl (Error ''no accounts found''), s')"
proof (cases "accountName = [] \<or>
    find (\<lambda>x. EqualFold E (AccountName x) accountName) (sort_by_name E AccountName accounts) = None")
  case True
  obtain idx err w' where r: "RunSelector E ''Select AWS Account:''
      (map account_option (sort_by_name E AccountName accounts)) (fst s) = ((idx, err), w')"
    by (metis surj_pair)
  show ?thesis
    unfolding selectAccount_chooser [OF True refl refl r] by (cases err) simp_all
next
  case False
  then obtain a where "accountName \<noteq> []"
    "find (\<lambda>x. EqualFold E (AccountName x) accountName) (sort_by_name E AccountName accounts) = Some a"
    by auto
  from selectAccount_match [OF this] show ?thesis by simp
qed

lemma selectRole_not_no_accounts:
  "selectRole E account roles roleName s \<noteq> (Inl (Error ''no accounts found''), s')"
proof (cases "roleName = [] \<or>
    find (\<lambda>x. EqualFold E (RoleName x) roleName) (sort_by_name E RoleName roles) = None")
  case True
  obtain idx err w' where r: "RunSelector E (''Select role for '' @ AccountName account @ '':'')
      (map RoleName (sort_by_name E RoleName roles)) (fst s) = ((idx, err), w')"
    by (metis surj_pair)
  show ?thesis
    unfolding selectRole_chooser [OF True refl refl refl r] by (cases err) simp_all
next
  case False
  then obtain r where "roleName \<noteq> []"
    "find (\<lambda>x. EqualFold E (RoleName x) roleName) (sort_by_name E RoleName roles) = Some r"
    by auto
  from selectRole_match [OF this] show ?thesis by simp
qed

lemma completeLogin_not_no_accounts:
  "completeLogin E tok account role s \<noteq> (Some (Error ''no accounts found''), s')"
  by (simp add: completeLogin_def Let_def call_def split: option.splits prod.splits sum.splits)

lemma handle_not_no_accounts:
  assumes "handleAccountRoleSelection E tok accounts accountName roleName s = Some (res, s')"
  shows "res \<noteq> Some (Error ''no accounts found'')"
proof
  assume "res = Some (Error ''no accounts found'')"
  with assms selectAccount_not_no_accounts [of E accounts accountName s]
    selectRole_not_no_accounts [of E] completeLogin_not_no_accounts [of E tok]
  show False
    by (auto simp: handleAccountRoleSelection_def
           split: option.splits prod.splits sum.splits if_splits)
qed

lemma reauthenticate_trace:
  assumes "reauthenticate E accountName roleName s = Some (res, s')"
  shows "\<exists>d. snd s' = snd s @ Print ''Starting SSO authentication...\<newline>''
                        # Call_Authenticate (sso_start_url E) (sso_region E) # d \<and>
             auth_count d = 0 \<and>
             listing_count d = (if fresh_token_obtained E (fst s) then 1 else 0) \<and>
             (res = Some (Error ''no accounts found'') \<longrightarrow> fresh_token_obtained E (fst s))"
proof -
  let ?tr1 = "snd s @ [Print ''Starting SSO authentication...\<newline>'',
                       Call_Authenticate (sso_start_url E) (sso_region E)]"
  obtain ar w1 where au: "Authenticate E (sso_start_url E) (sso_region E) (fst s) = (ar, w1)"
    by (cases "Authenticate E (sso_start_url E) (sso_region E) (fst s)")
  show ?thesis
  proof (cases ar)
    case (Some err)
    with assms au show ?thesis
      by (auto simp: reauthenticate_def call_def Printf_def fresh_token_obtained_def)
  next
    case None
    obtain gr w2 where g: "GetCachedToken E w1 = (gr, w2)"
      by (cases "GetCachedToken E w1")
    show ?thesis
    proof (cases gr)
      case (Inl err)
      with assms au None g show ?thesis
        by (auto simp: reauthenticate_def call_def Printf_def fresh_token_obtained_def)
    next
      case (Inr tok)
      with au None g have fresh: "fresh_token_obtained E (fst s)"
        by (simp add: fresh_token_obtained_def)
      let ?s2 = "(w2, ?tr1 @ [Call_GetCachedToken])"
      from assms au None g Inr
      have run: "(case ListAccounts E tok ?s2 of
                    None \<Rightarrow> None
                  | Some ((accounts, Some err), s3) \<Rightarrow>
                      Some (Some (Error (''error listing accounts: '' @ err)), s3)
                  | Some ((accounts, None), s3) \<Rightarrow>
                      if length accounts = 0 then Some (Some (Error ''no accounts found''), s3)
                      else handleAccountRoleSelection E tok accounts accountName roleName
                             (saveAccountCache_warn E accounts s3)) = Some (res, s')"
        by (simp add: reauthenticate_def call_def Printf_def)
      then obtain accounts lerr s3 where l: "ListAccounts E tok ?s2 = Some ((accounts, lerr), s3)"
        by (cases "ListAccounts E tok ?s2") auto
      from ListAccounts_loop_continues [OF l [unfolded ListAccounts_def]]
      have c3: "continues (?tr1 @ [Call_GetCachedToken]) 1 (snd s3)"
        by simp
      have "continues (snd s3) 0 (snd s')"
      proof (cases "lerr = None \<and> accounts \<noteq> []")
        case False
        with run l show ?thesis by (auto split: option.splits if_splits)
      next
        case True
        with run l have "handleAccountRoleSelection E tok accounts accountName roleName
            (saveAccountCache_warn E accounts s3) = Some (res, s')"
          by auto
        from continues_trans [OF saveAccountCache_warn_continues handle_continues [OF this]]
        show ?thesis by simp
      qed
      from continues_trans [OF c3 this] have "continues (?tr1 @ [Call_GetCachedToken]) 1 (snd s')"
        by simp
      then obtain d where "snd s' = ?tr1 @ [Call_GetCachedToken] @ d" "auth_count d = 0"
        "listing_count d = 1"
        by (auto simp: continues_def)
      with fresh show ?thesis by simp
    qed
  qed
qed

lemma RunLogin_cases:
  assumes "RunLogin E force accountName roleName (w, []) = Some (res, s')"
  obtains
    (no_config) "sso_start_url E = []" "snd s' = []"
  | (no_manager) "sso_start_url E \<noteq> []" "fst (NewCredentialsManager E w) \<noteq> None"
      "snd s' = [Call_NewCredentialsManager]"
  | (cached) "\<not> force" "cached_token_works E w"
      "continues [Call_NewCredentialsManager, Call_GetCachedToken] 1 (snd s')"
      "res \<noteq> Some (Error ''no accounts found'')"
  | (reauth) s0 where "sso_start_url E \<noteq> []" "fst (NewCredentialsManager E w) = None"
      "force \<or> \<not> cached_token_works E w"
      "RunLogin E force accountName roleName (w, []) = reauthenticate E accountName roleName s0"
      "auth_count (snd s0) = 0" "listing_count (snd s0) \<le> 1"
proof (cases "sso_start_url E = []")
  case True
  with assms no_config show ?thesis by (auto simp: RunLogin_def)
next
  case url: False
  obtain mr w1 where m: "NewCredentialsManager E w = (mr, w1)"
    by (cases "NewCredentialsManager E w")
  show ?thesis
  proof (cases mr)
    case (Some err)
    with assms url m no_manager show ?thesis by (auto simp: RunLogin_def call_def)
  next
    case None
    show ?thesis
    proof (cases force)
      case True
      with url m None have "RunLogin E force accountName roleName (w, [])
          = reauthenticate E accountName roleName (w1, [Call_NewCredentialsManager])"
        by (simp add: RunLogin_def call_def)
      with reauth [of "(w1, [Call_NewCredentialsManager])"] url m None True show ?thesis by simp
    next
      case False
      obtain gr w2 where g: "GetCachedToken E w1 = (gr, w2)"
        by (cases "GetCachedToken E w1")
      let ?tr2 = "[Call_NewCredentialsManager, Call_GetCachedToken]"
      show ?thesis
      proof (cases gr)
        case (Inl err)
        with url m None False g have "RunLogin E force accountName roleName (w, [])
            = reauthenticate E accountName roleName (w2, ?tr2)"
          by (simp add: RunLogin_def call_def)
        moreover from url m None g Inl have "\<not> cached_token_works E w"
          by (simp add: cached_token_works_def)
        ultimately show ?thesis
          using reauth [of "(w2, ?tr2)"] url m None by simp
      next
        case (Inr tok)
        with assms url m None False g
        have run: "(case ListAccounts E tok (w2, ?tr2) of
                      None \<Rightarrow> None
                    | Some ((accounts, listErr), s3) \<Rightarrow>
                        if listErr = None \<and> length accounts > 0 then
                          handleAccountRoleSelection E tok accounts accountName roleName
                            (saveAccountCache_warn E accounts s3)
                        else reauthenticate E accountName roleName s3) = Some (res, s')"
          by (simp add: RunLogin_def call_def)
        then obtain accounts lerr s3 where l: "ListAccounts E tok (w2, ?tr2) = Some ((accounts, lerr), s3)"
          by (cases "ListAccounts E tok (w2, ?tr2)") auto
        from ListAccounts_loop_continues [OF l [unfolded ListAccounts_def]]
        have c3: "continues ?tr2 1 (snd s3)"
          by simp
        show ?thesis
        proof (cases "lerr = None \<and> accounts \<noteq> []")
          case True
          with run l have h: "handleAccountRoleSelection E tok accounts accountName roleName
              (saveAccountCache_warn E accounts s3) = Some (res, s')"
            by auto
          from continues_trans [OF saveAccountCache_warn_continues handle_continues [OF h]]
          have "continues (snd s3) 0 (snd s')" by simp
          from continues_trans [OF c3 this] have "continues ?tr2 1 (snd s')" by simp
          moreover from url m None g Inr l True have "cached_token_works E w"
            by (simp add: cached_token_works_def)
          ultimately show ?thesis
            using cached False handle_not_no_accounts [OF h] by simp
        next
          case no: False
          with url m None False g Inr l have "RunLogin E force accountName roleName (w, [])
              = reauthenticate E accountName roleName s3"
            by (auto simp: RunLogin_def call_def)
          moreover from url m None g Inr l no have "\<not> cached_token_works E w"
            by (auto simp: cached_token_works_def)
          moreover from continues_counts [OF c3] have "auth_count (snd s3) = 0" "listing_count (snd s3) \<le> 1"
            by simp_all
          ultimately show ?thesis
            using reauth [of s3] url m None by simp
        qed
      qed
    qed
  qed
qed



section \<open>Properties of the directory\<close>

text \<open>
  C4. For every sequence of pages a provider serves, \<^verbatim>\<open>ListAccounts\<close> and \<^verbatim>\<open>ListRoles\<close>
  return, without error, the concatenation of the pages in page order. So the result does
  not depend on where the page boundaries fall: two providers whose pages concatenate to
  the same sequence give the same result.
\<close>

theorem listing_concatenates_pages:
  fixes E E' :: "'w env"
  shows
  "(serves_accounts E tok None (fst s) pages \<longrightarrow>
      map_option fst (ListAccounts E tok s) = Some (concat pages, None)) \<and>
   (serves_accounts E tok None (fst s) pages \<and> serves_accounts E' tok' None (fst s') pages' \<and>
    concat pages = concat pages' \<longrightarrow>
      map_option fst (ListAccounts E tok s) = map_option fst (ListAccounts E' tok' s')) \<and>
   (serves_roles E tok aid None (fst s) rpages \<longrightarrow>
      map_option fst (ListRoles E tok aid s) = Some (concat rpages, None)) \<and>
   (serves_roles E tok aid None (fst s) rpages \<and> serves_roles E' tok' aid' None (fst s') rpages' \<and>
    concat rpages = concat rpages' \<longrightarrow>
      map_option fst (ListRoles E tok aid s) = map_option fst (ListRoles E' tok' aid' s'))"
proof -
  have a: "map_option fst (ListAccounts F t z) = Some (concat ps, None)"
    if "serves_accounts F t None (fst z) ps" for F :: "'w env" and t z ps
    using ListAccounts_loop_serves [OF that, of "[]"] by (auto simp: ListAccounts_def)
  have r: "map_option fst (ListRoles F t i z) = Some (concat ps, None)"
    if "serves_roles F t i None (fst z) ps" for F :: "'w env" and t i z ps
    using ListRoles_loop_serves [OF that, of "[]"] by (auto simp: ListRoles_def)
  show ?thesis
    using a [of E tok s pages] a [of E' tok' s' pages'] r [of E tok aid s rpages]
      r [of E' tok' aid' s' rpages']
    by auto
qed

theorem listing_concatenates_pages_witness:
  "map_option fst (ListAccounts scripted ''cached'' (office, [])) = Some ([Prod_account, Dev_account], None) \<and>
   map_option fst (ListAccounts scripted ''cached'' (office, []))
     = map_option fst (ListAccounts scripted ''cached''
         (office\<lparr>accounts_of := [(''cached'', [Inr [Prod_account, Dev_account]])]\<rparr>, [])) \<and>
   map_option fst (ListRoles scripted ''cached'' ''111'' (office, [])) = Some ([ReadOnly_role, Admin_role], None) \<and>
   map_option fst (ListRoles scripted ''cached'' ''111'' (office, []))
     = map_option fst (ListRoles scripted ''cached'' ''111''
         (office\<lparr>roles_of := [(''111'', [Inr [ReadOnly_role, Admin_role]])]\<rparr>, []))"
proof -
  have a2: "serves_accounts scripted ''cached'' None (fst (office, [])) [[Prod_account], [Dev_account]]"
    by code_simp
  have a1: "serves_accounts scripted ''cached'' None
              (fst (office\<lparr>accounts_of := [(''cached'', [Inr [Prod_account, Dev_account]])]\<rparr>, [])) [[Prod_account, Dev_account]]"
    by code_simp
  have r2: "serves_roles scripted ''cached'' ''111'' None (fst (office, [])) [[ReadOnly_role], [Admin_role]]"
    by code_simp
  have r1: "serves_roles scripted ''cached'' ''111'' None
              (fst (office\<lparr>roles_of := [(''111'', [Inr [ReadOnly_role, Admin_role]])]\<rparr>, [])) [[ReadOnly_role, Admin_role]]"
    by code_simp
  note T = listing_concatenates_pages [of scripted "''cached''" "(office, [])" "[[Prod_account], [Dev_account]]"
        scripted "''cached''" _ _ "''111''" "[[ReadOnly_role], [Admin_role]]" "''111''"]
  have c1: "map_option fst (ListAccounts scripted ''cached'' (office, []))
              = Some (concat [[Prod_account], [Dev_account]], None)"
    using T a2 by blast
  have c2: "map_option fst (ListAccounts scripted ''cached'' (office, []))
     = map_option fst (ListAccounts scripted ''cached''
         (office\<lparr>accounts_of := [(''cached'', [Inr [Prod_account, Dev_account]])]\<rparr>, []))"
    using T [of "(office\<lparr>accounts_of := [(''cached'', [Inr [Prod_account, Dev_account]])]\<rparr>, [])" "[[Prod_account, Dev_account]]"] a2 a1
    by simp
  have c3: "map_option fst (ListRoles scripted ''cached'' ''111'' (office, []))
              = Some (concat [[ReadOnly_role], [Admin_role]], None)"
    using T r2 by blast
  have c4: "map_option fst (ListRoles scripted ''cached'' ''111'' (office, []))
     = map_option fst (ListRoles scripted ''cached'' ''111''
         (office\<lparr>roles_of := [(''111'', [Inr [ReadOnly_role, Admin_role]])]\<rparr>, []))"
    using T [of "(office\<lparr>roles_of := [(''111'', [Inr [ReadOnly_role, Admin_role]])]\<rparr>, [])" _ "[[ReadOnly_role, Admin_role]]"] r2 r1
    by simp
  from c1 c2 c3 c4 show ?thesis by simp
qed

text \<open>
  C6. When a provider serves some pages and then fails a fetch, \<^verbatim>\<open>ListAccounts\<close> and
  \<^verbatim>\<open>ListRoles\<close> return the error of that fetch and an empty slice: the pages fetched
  before are dropped.
\<close>

theorem listing_fails_without_partial_result:
  "(fails_accounts_after E tok None (fst s) pages err \<longrightarrow>
      map_option fst (ListAccounts E tok s) = Some ([], Some err)) \<and>
   (fails_roles_after E tok aid None (fst s) rpages err \<longrightarrow>
      map_option fst (ListRoles E tok aid s) = Some ([], Some err))"
proof -
  have a: "map_option fst (ListAccounts E tok s) = Some ([], Some err)"
    if "fails_accounts_after E tok None (fst s) pages err"
    using ListAccounts_loop_fails [OF that, of "[]"] by (auto simp: ListAccounts_def)
  have r: "map_option fst (ListRoles E tok aid s) = Some ([], Some err)"
    if "fails_roles_after E tok aid None (fst s) rpages err"
    using ListRoles_loop_fails [OF that, of "[]"] by (auto simp: ListRoles_def)
  from a r show ?thesis by simp
qed

theorem listing_fails_without_partial_result_witness:
  "map_option fst (ListAccounts scripted ''cached''
       (office\<lparr>accounts_of := [(''cached'', [Inr [Prod_account], Inr [Dev_account], Inl ''throttled''])]\<rparr>, []))
     = Some ([], Some ''throttled'') \<and>
   map_option fst (ListRoles scripted ''cached'' ''111''
       (office\<lparr>roles_of := [(''111'', [Inr [ReadOnly_role], Inl ''throttled''])]\<rparr>, []))
     = Some ([], Some ''throttled'')"
proof -
  have a: "fails_accounts_after scripted ''cached'' None
             (fst (office\<lparr>accounts_of := [(''cached'', [Inr [Prod_account], Inr [Dev_account], Inl ''throttled''])]\<rparr>, []))
             [[Prod_account], [Dev_account]] ''throttled''"
    by code_simp
  have r: "fails_roles_after scripted ''cached'' ''111'' None
             (fst (office\<lparr>roles_of := [(''111'', [Inr [ReadOnly_role], Inl ''throttled''])]\<rparr>, []))
             [[ReadOnly_role]] ''throttled''"
    by code_simp
  have c1: "map_option fst (ListAccounts scripted ''cached''
       (office\<lparr>accounts_of := [(''cached'', [Inr [Prod_account], Inr [Dev_account], Inl ''throttled''])]\<rparr>, []))
     = Some ([], Some ''throttled'')"
    using listing_fails_without_partial_result a by blast
  have c2: "map_option fst (ListRoles scripted ''cached'' ''111''
       (office\<lparr>roles_of := [(''111'', [Inr [ReadOnly_role], Inl ''throttled''])]\<rparr>, []))
     = Some ([], Some ''throttled'')"
    using listing_fails_without_partial_result r by blast
  from c1 c2 show ?thesis by simp
qed

section \<open>Properties of the selection\<close>

text \<open>
  C1. When a non-empty hint matches the name of some candidate under \<^verbatim>\<open>strings.EqualFold\<close>,
  the selection of the account, and in the same way the selection of the role, returns a
  matching candidate (the first one of the sorted list) without opening the chooser: it
  calls no collaborator at all and only prints two lines.
\<close>

theorem hint_match_skips_chooser:
  assumes "sort_Slice_contract (sort_Slice E)" and "accountName \<noteq> []" and "roleName \<noteq> []"
  shows
    "((\<exists>a\<in>set accounts. EqualFold E (AccountName a) accountName) \<longrightarrow>
        (\<exists>a. a \<in> set accounts \<and> EqualFold E (AccountName a) accountName \<and>
             find (\<lambda>x. EqualFold E (AccountName x) accountName) (sort_by_name E AccountName accounts) = Some a \<and>
             selectAccount E accounts accountName s =
               (Inr a, (fst s, snd s @ [Print (''Found account: '' @ AccountName a @ ''\<newline>''),
                                        Print (check_mark @ '' Selected: '' @ AccountName a @ ''\<newline>'')])) \<and>
             selector_calls (snd (snd (selectAccount E accounts accountName s))) = selector_calls (snd s))) \<and>
     ((\<exists>r\<in>set roles. EqualFold E (RoleName r) roleName) \<longrightarrow>
        (\<exists>r. r \<in> set roles \<and> EqualFold E (RoleName r) roleName \<and>
             find (\<lambda>x. EqualFold E (RoleName x) roleName) (sort_by_name E RoleName roles) = Some r \<and>
             selectRole E account roles roleName s =
               (Inr r, (fst s, snd s @ [Print (''Found role: '' @ RoleName r @ ''\<newline>''),
                                        Print (check_mark @ '' Selected: '' @ RoleName r @ ''\<newline>'')])) \<and>
             selector_calls (snd (snd (selectRole E account roles roleName s))) = selector_calls (snd s)))"
proof (intro conjI impI)
  assume "\<exists>a\<in>set accounts. EqualFold E (AccountName a) accountName"
  then have "find (\<lambda>x. EqualFold E (AccountName x) accountName) (sort_by_name E AccountName accounts) \<noteq> None"
    using assms(1) by (simp add: find_no_match sort_by_name_set)
  then obtain a where a: "find (\<lambda>x. EqualFold E (AccountName x) accountName)
      (sort_by_name E AccountName accounts) = Some a"
    by blast
  from find_SomeD [OF a] assms(1) have "a \<in> set accounts" "EqualFold E (AccountName a) accountName"
    by (simp_all add: sort_by_name_set)
  with a selectAccount_match [OF assms(2) a, of s]
  show "\<exists>a. a \<in> set accounts \<and> EqualFold E (AccountName a) accountName \<and>
             find (\<lambda>x. EqualFold E (AccountName x) accountName) (sort_by_name E AccountName accounts) = Some a \<and>
             selectAccount E accounts accountName s =
               (Inr a, (fst s, snd s @ [Print (''Found account: '' @ AccountName a @ ''\<newline>''),
                                        Print (check_mark @ '' Selected: '' @ AccountName a @ ''\<newline>'')])) \<and>
             selector_calls (snd (snd (selectAccount E accounts accountName s))) = selector_calls (snd s)"
    by simp
next
  assume "\<exists>r\<in>set roles. EqualFold E (RoleName r) roleName"
  then have "find (\<lambda>x. EqualFold E (RoleName x) roleName) (sort_by_name E RoleName roles) \<noteq> None"
    using assms(1) by (simp add: find_no_match sort_by_name_set)
  then obtain r where r: "find (\<lambda>x. EqualFold E (RoleName x) roleName)
      (sort_by_name E RoleName roles) = Some r"
    by blast
  from find_SomeD [OF r] assms(1) have "r \<in> set roles" "EqualFold E (RoleName r) roleName"
    by (simp_all add: sort_by_name_set)
  with r selectRole_match [OF assms(3) r, of account s]
  show "\<exists>r. r \<in> set roles \<and> EqualFold E (RoleName r) roleName \<and>
             find (\<lambda>x. EqualFold E (RoleName x) roleName) (sort_by_name E RoleName roles) = Some r \<and>
             selectRole E account roles roleName s =
               (Inr r, (fst s, snd s @ [Print (''Found role: '' @ RoleName r @ ''\<newline>''),
                                        Print (check_mark @ '' Selected: '' @ RoleName r @ ''\<newline>'')])) \<and>
             selector_calls (snd (snd (selectRole E account roles roleName s))) = selector_calls (snd s)"
    by simp
qed

theorem hint_match_skips_chooser_witness:
  "selectAccount scripted [Prod_account, Dev_account] ''dev'' (office, []) =
     (Inr Dev_account, (office, [Print ''Found account: Dev\<newline>'', Print (check_mark @ '' Selected: Dev\<newline>'')])) \<and>
   selectRole scripted Dev_account [ReadOnly_role, Admin_role] ''ADMIN'' (office, []) =
     (Inr Admin_role, (office, [Print ''Found role: Admin\<newline>'', Print (check_mark @ '' Selected: Admin\<newline>'')])) \<and>
   selector_calls (snd (snd (selectAccount scripted [Prod_account, Dev_account] ''dev'' (office, [])))) = [] \<and>
   selector_calls (snd (snd (selectRole scripted Dev_account [ReadOnly_role, Admin_role] ''ADMIN'' (office, [])))) = []"
proof -
  have c: "sort_Slice_contract (sort_Slice scripted)"
    by (simp add: scripted_def stable_positions_contract)
  have ha: "\<exists>a\<in>set [Prod_account, Dev_account]. EqualFold scripted (AccountName a) ''dev''"
    by code_simp
  have hr: "\<exists>r\<in>set [ReadOnly_role, Admin_role]. EqualFold scripted (RoleName r) ''ADMIN''"
    by code_simp
  have fa: "find (\<lambda>x. EqualFold scripted (AccountName x) ''dev'') (sort_by_name scripted AccountName [Prod_account, Dev_account]) = Some Dev_account"
    by code_simp
  have fr: "find (\<lambda>x. EqualFold scripted (RoleName x) ''ADMIN'') (sort_by_name scripted RoleName [ReadOnly_role, Admin_role]) = Some Admin_role"
    by code_simp
  have na: "AccountName Dev_account = ''Dev''" and nr: "RoleName Admin_role = ''Admin''"
    by (simp_all add: Dev_account_def Admin_role_def)
  from hint_match_skips_chooser [OF c, of "''dev''" "''ADMIN''" "[Prod_account, Dev_account]" "(office, [])" "[ReadOnly_role, Admin_role]" Dev_account]
    ha hr fa fr na nr
  show ?thesis by auto
qed

text \<open>
  C5. When the hint is empty or matches no candidate, the chooser is opened once, on all
  the candidates (none dropped, none added) in ascending order of name, and the entry at
  the index it returns is the selection.
\<close>

theorem chooser_gets_all_candidates_sorted:
  assumes "sort_Slice_contract (sort_Slice E)"
  shows
    "(accountName = [] \<or> (\<forall>a\<in>set accounts. \<not> EqualFold E (AccountName a) accountName) \<longrightarrow>
        (let cs = sort_by_name E AccountName accounts;
             shown = map account_option cs;
             result = selectAccount E accounts accountName s
         in mset cs = mset accounts \<and> sorted (map AccountName cs) \<and>
            selector_calls (snd (snd result)) = selector_calls (snd s) @ [(''Select AWS Account:'', shown)] \<and>
            (\<forall>idx w'. RunSelector E ''Select AWS Account:'' shown (fst s) = ((idx, None), w') \<and>
                      0 \<le> idx \<and> idx < int (length cs) \<longrightarrow>
                      fst result = Inr (cs ! nat idx)))) \<and>
     (roleName = [] \<or> (\<forall>r\<in>set roles. \<not> EqualFold E (RoleName r) roleName) \<longrightarrow>
        (let cs = sort_by_name E RoleName roles;
             shown = map RoleName cs;
             title = ''Select role for '' @ AccountName account @ '':'';
             result = selectRole E account roles roleName s
         in mset cs = mset roles \<and> sorted (map RoleName cs) \<and>
            selector_calls (snd (snd result)) = selector_calls (snd s) @ [(title, shown)] \<and>
            (\<forall>idx w'. RunSelector E title shown (fst s) = ((idx, None), w') \<and>
                      0 \<le> idx \<and> idx < int (length cs) \<longrightarrow>
                      fst result = Inr (cs ! nat idx))))"
proof (intro conjI impI)
  assume h: "accountName = [] \<or> (\<forall>a\<in>set accounts. \<not> EqualFold E (AccountName a) accountName)"
  define cs where "cs = sort_by_name E AccountName accounts"
  obtain idx err w' where r: "RunSelector E ''Select AWS Account:'' (map account_option cs) (fst s) = ((idx, err), w')"
    by (metis surj_pair)
  from h assms have n: "accountName = [] \<or>
      find (\<lambda>x. EqualFold E (AccountName x) accountName) (sort_by_name E AccountName accounts) = None"
    by (simp add: find_no_match sort_by_name_set)
  note sel = selectAccount_chooser [OF n cs_def refl r]
  have calls: "selector_calls (snd (snd (selectAccount E accounts accountName s)))
                 = selector_calls (snd s) @ [(''Select AWS Account:'', map account_option cs)]"
    unfolding sel by (simp split: option.splits)
  have pick: "fst (selectAccount E accounts accountName s) = Inr (cs ! nat i)"
    if "RunSelector E ''Select AWS Account:'' (map account_option cs) (fst s) = ((i, None), w'')"
      and "0 \<le> i" and "i < int (length cs)" for i w''
    using that r unfolding sel by auto
  from calls pick sort_by_name_mset [OF assms, of AccountName accounts]
    sort_by_name_sorted [OF assms, of AccountName accounts]
  show "let cs = sort_by_name E AccountName accounts;
            shown = map account_option cs;
            result = selectAccount E accounts accountName s
        in mset cs = mset accounts \<and> sorted (map AccountName cs) \<and>
           selector_calls (snd (snd result)) = selector_calls (snd s) @ [(''Select AWS Account:'', shown)] \<and>
           (\<forall>idx w'. RunSelector E ''Select AWS Account:'' shown (fst s) = ((idx, None), w') \<and>
                     0 \<le> idx \<and> idx < int (length cs) \<longrightarrow>
                     fst result = Inr (cs ! nat idx))"
    unfolding Let_def cs_def by blast
next
  assume h: "roleName = [] \<or> (\<forall>r\<in>set roles. \<not> EqualFold E (RoleName r) roleName)"
  define cs where "cs = sort_by_name E RoleName roles"
  define title where "title = ''Select role for '' @ AccountName account @ '':''"
  obtain idx err w' where r: "RunSelector E title (map RoleName cs) (fst s) = ((idx, err), w')"
    by (metis surj_pair)
  from h assms have n: "roleName = [] \<or>
      find (\<lambda>x. EqualFold E (RoleName x) roleName) (sort_by_name E RoleName roles) = None"
    by (simp add: find_no_match sort_by_name_set)
  note sel = selectRole_chooser [OF n cs_def title_def refl r]
  have calls: "selector_calls (snd (snd (selectRole E account roles roleName s)))
                 = selector_calls (snd s) @ [(title, map RoleName cs)]"
    unfolding sel by (simp split: option.splits)
  have pick: "fst (selectRole E account roles roleName s) = Inr (cs ! nat i)"
    if "RunSelector E title (map RoleName cs) (fst s) = ((i, None), w'')"
      and "0 \<le> i" and "i < int (length cs)" for i w''
    using that r unfolding sel by auto
  from calls pick sort_by_name_mset [OF assms, of RoleName roles]
    sort_by_name_sorted [OF assms, of RoleName roles]
  show "let cs = sort_by_name E RoleName roles;
            shown = map RoleName cs;
            title = ''Select role for '' @ AccountName account @ '':'';
            result = selectRole E account roles roleName s
        in mset cs = mset roles \<and> sorted (map RoleName cs) \<and>
           selector_calls (snd (snd result)) = selector_calls (snd s) @ [(title, shown)] \<and>
           (\<forall>idx w'. RunSelector E title shown (fst s) = ((idx, None), w') \<and>
                     0 \<le> idx \<and> idx < int (length cs) \<longrightarrow>
                     fst result = Inr (cs ! nat idx))"
    unfolding Let_def cs_def title_def by blast
qed

theorem chooser_gets_all_candidates_sorted_witness:
  "selector_calls (snd (snd (selectAccount scripted [Prod_account, Dev_account] [] (office, []))))
     = [(''Select AWS Account:'', [''Dev (111)'', ''Prod (222)''])] \<and>
   fst (selectAccount scripted [Prod_account, Dev_account] [] (office, [])) = Inr Prod_account \<and>
   selector_calls (snd (snd (selectRole scripted Dev_account [ReadOnly_role, Admin_role] ''viewer'' (office, []))))
     = [(''Select role for Dev:'', [''Admin'', ''ReadOnly''])] \<and>
   fst (selectRole scripted Dev_account [ReadOnly_role, Admin_role] ''viewer'' (office, [])) = Inr ReadOnly_role"
proof -
  have c: "sort_Slice_contract (sort_Slice scripted)"
    by (simp add: scripted_def stable_positions_contract)
  have ha: "[] = ([] :: string) \<or> (\<forall>a\<in>set [Prod_account, Dev_account]. \<not> EqualFold scripted (AccountName a) [])"
    by simp
  have hr: "''viewer'' = [] \<or> (\<forall>r\<in>set [ReadOnly_role, Admin_role]. \<not> EqualFold scripted (RoleName r) ''viewer'')"
    by code_simp
  have sa: "sort_by_name scripted AccountName [Prod_account, Dev_account] = [Dev_account, Prod_account]"
    by code_simp
  have sr: "sort_by_name scripted RoleName [ReadOnly_role, Admin_role] = [Admin_role, ReadOnly_role]"
    by code_simp
  have oa: "map account_option [Dev_account, Prod_account] = [''Dev (111)'', ''Prod (222)'']"
    by code_simp
  have orl: "map RoleName [Admin_role, ReadOnly_role] = [''Admin'', ''ReadOnly'']"
    by code_simp
  have ta: "''Select role for '' @ AccountName Dev_account @ '':'' = ''Select role for Dev:''"
    by code_simp
  have ra: "RunSelector scripted ''Select AWS Account:'' [''Dev (111)'', ''Prod (222)''] (fst (office, []))
              = ((1, None), office\<lparr>operator := [0]\<rparr>)"
    by (simp add: scripted_def office_def)
  have rr: "RunSelector scripted ''Select role for Dev:'' [''Admin'', ''ReadOnly''] (fst (office, []))
              = ((1, None), office\<lparr>operator := [0]\<rparr>)"
    by (simp add: scripted_def office_def)
  note T = chooser_gets_all_candidates_sorted [OF c, of "[]" "[Prod_account, Dev_account]" "(office, [])" "''viewer''"
      "[ReadOnly_role, Admin_role]" Dev_account, unfolded Let_def sa sr oa orl ta]
  from T ha have a1: "selector_calls (snd (snd (selectAccount scripted [Prod_account, Dev_account] [] (office, []))))
     = [(''Select AWS Account:'', [''Dev (111)'', ''Prod (222)''])]"
    by simp
  from T ha ra have a2: "fst (selectAccount scripted [Prod_account, Dev_account] [] (office, [])) = Inr ([Dev_account, Prod_account] ! nat 1)"
    by simp
  from T hr have r1: "selector_calls (snd (snd (selectRole scripted Dev_account [ReadOnly_role, Admin_role] ''viewer'' (office, []))))
     = [(''Select role for Dev:'', [''Admin'', ''ReadOnly''])]"
    by simp
  from T hr rr have r2: "fst (selectRole scripted Dev_account [ReadOnly_role, Admin_role] ''viewer'' (office, [])) = Inr ([Admin_role, ReadOnly_role] ! nat 1)"
    by simp
  from a1 a2 r1 r2 show ?thesis by simp
qed

text \<open>
  C8. When the chooser reports no selection (index \<^verbatim>\<open>-1\<close>) or an error, for the account or
  for the role, \<^verbatim>\<open>handleAccountRoleSelection\<close> returns an error to its caller and does nothing
  after the chooser: no account or role is taken by default.
\<close>

theorem chooser_abort_fails_workflow:
  assumes "sort_Slice_contract (sort_Slice E)"
  shows
    "((accountName = [] \<or> (\<forall>a\<in>set accounts. \<not> EqualFold E (AccountName a) accountName)) \<and>
      RunSelector E ''Select AWS Account:'' (map account_option (sort_by_name E AccountName accounts)) (fst s)
        = ((idx, err), w') \<and> (err \<noteq> None \<or> idx = - 1) \<longrightarrow>
        (\<exists>tr. handleAccountRoleSelection E tok accounts accountName roleName s =
                 Some (Some (Error (case err of Some e \<Rightarrow> ''error selecting account: '' @ e
                                              | None \<Rightarrow> ''no account selected'')), (w', tr)) \<and>
              last tr = Call_RunSelector ''Select AWS Account:''
                          (map account_option (sort_by_name E AccountName accounts)))) \<and>
     (selectAccount E accounts accountName s = (Inr account, s1) \<and>
      ListRoles E tok (AccountId account) s1 = Some ((roles, None), s2) \<and> roles \<noteq> [] \<and>
      (roleName = [] \<or> (\<forall>r\<in>set roles. \<not> EqualFold E (RoleName r) roleName)) \<and>
      RunSelector E (''Select role for '' @ AccountName account @ '':'')
          (map RoleName (sort_by_name E RoleName roles)) (fst s2)
        = ((idx, err), w') \<and> (err \<noteq> None \<or> idx = - 1) \<longrightarrow>
        (\<exists>tr. handleAccountRoleSelection E tok accounts accountName roleName s =
                 Some (Some (Error (case err of Some e \<Rightarrow> ''error selecting role: '' @ e
                                              | None \<Rightarrow> ''no role selected'')), (w', tr)) \<and>
              last tr = Call_RunSelector (''Select role for '' @ AccountName account @ '':'')
                          (map RoleName (sort_by_name E RoleName roles))))"
proof (intro conjI impI)
  assume h: "(accountName = [] \<or> (\<forall>a\<in>set accounts. \<not> EqualFold E (AccountName a) accountName)) \<and>
      RunSelector E ''Select AWS Account:'' (map account_option (sort_by_name E AccountName accounts)) (fst s)
        = ((idx, err), w') \<and> (err \<noteq> None \<or> idx = - 1)"
  with assms have n: "accountName = [] \<or>
      find (\<lambda>x. EqualFold E (AccountName x) accountName) (sort_by_name E AccountName accounts) = None"
    by (simp add: find_no_match sort_by_name_set)
  from h have r: "RunSelector E ''Select AWS Account:''
      (map account_option (sort_by_name E AccountName accounts)) (fst s) = ((idx, err), w')"
    and ab: "err \<noteq> None \<or> idx = - 1"
    by simp_all
  note sel = selectAccount_chooser [OF n refl refl r]
  from ab obtain tr where "selectAccount E accounts accountName s =
      (Inl (Error (case err of Some e \<Rightarrow> ''error selecting account: '' @ e
                             | None \<Rightarrow> ''no account selected'')), (w', tr))"
    and "last tr = Call_RunSelector ''Select AWS Account:''
                          (map account_option (sort_by_name E AccountName accounts))"
    unfolding sel by (cases err) auto
  then show "\<exists>tr. handleAccountRoleSelection E tok accounts accountName roleName s =
                 Some (Some (Error (case err of Some e \<Rightarrow> ''error selecting account: '' @ e
                                              | None \<Rightarrow> ''no account selected'')), (w', tr)) \<and>
              last tr = Call_RunSelector ''Select AWS Account:''
                          (map account_option (sort_by_name E AccountName accounts))"
    using handle_account_failure by blast
next
  assume h: "selectAccount E accounts accountName s = (Inr account, s1) \<and>
      ListRoles E tok (AccountId account) s1 = Some ((roles, None), s2) \<and> roles \<noteq> [] \<and>
      (roleName = [] \<or> (\<forall>r\<in>set roles. \<not> EqualFold E (RoleName r) roleName)) \<and>
      RunSelector E (''Select role for '' @ AccountName account @ '':'')
          (map RoleName (sort_by_name E RoleName roles)) (fst s2)
        = ((idx, err), w') \<and> (err \<noteq> None \<or> idx = - 1)"
  with assms have n: "roleName = [] \<or>
      find (\<lambda>x. EqualFold E (RoleName x) roleName) (sort_by_name E RoleName roles) = None"
    by (simp add: find_no_match sort_by_name_set)
  from h have r: "RunSelector E (''Select role for '' @ AccountName account @ '':'')
      (map RoleName (sort_by_name E RoleName roles)) (fst s2) = ((idx, err), w')"
    and ab: "err \<noteq> None \<or> idx = - 1"
    by simp_all
  note sel = selectRole_chooser [OF n refl refl refl r]
  from ab obtain tr where "selectRole E account roles roleName s2 =
      (Inl (Error (case err of Some e \<Rightarrow> ''error selecting role: '' @ e
                             | None \<Rightarrow> ''no role selected'')), (w', tr))"
    and "last tr = Call_RunSelector (''Select role for '' @ AccountName account @ '':'')
                          (map RoleName (sort_by_name E RoleName roles))"
    unfolding sel by (cases err) auto
  with h show "\<exists>tr. handleAccountRoleSelection E tok accounts accountName roleName s =
                 Some (Some (Error (case err of Some e \<Rightarrow> ''error selecting role: '' @ e
                                              | None \<Rightarrow> ''no role selected'')), (w', tr)) \<and>
              last tr = Call_RunSelector (''Select role for '' @ AccountName account @ '':'')
                          (map RoleName (sort_by_name E RoleName roles))"
    using handle_role_failure by blast
qed

theorem chooser_abort_fails_workflow_witness:
  "map_option fst (handleAccountRoleSelection scripted ''cached'' [Prod_account, Dev_account] [] []
       (office\<lparr>operator := []\<rparr>, [])) = Some (Some (Error ''no account selected'')) \<and>
   map_option fst (handleAccountRoleSelection scripted ''cached'' [Prod_account, Dev_account] [] []
       (office\<lparr>operator := [0]\<rparr>, [])) = Some (Some (Error ''no role selected''))"
proof -
  let ?w0 = "office\<lparr>operator := []\<rparr>"
  let ?s1 = "(?w0, [Call_RunSelector ''Select AWS Account:'' [''Dev (111)'', ''Prod (222)''],
                    Print (check_mark @ '' Selected: Dev\<newline>'')])"
  let ?s2 = "(?w0, [Call_RunSelector ''Select AWS Account:'' [''Dev (111)'', ''Prod (222)''],
                    Print (check_mark @ '' Selected: Dev\<newline>''),
                    Call_ListAccountRoles ''cached'' ''111'' None,
                    Call_ListAccountRoles ''cached'' ''111'' (Some ''p'')])"
  have c: "sort_Slice_contract (sort_Slice scripted)"
    by (simp add: scripted_def stable_positions_contract)
  have ra: "RunSelector scripted ''Select AWS Account:''
              (map account_option (sort_by_name scripted AccountName [Prod_account, Dev_account]))
              (fst (?w0, [])) = ((- 1, None), ?w0)"
    by (simp add: scripted_def office_def)
  have sa: "selectAccount scripted [Prod_account, Dev_account] [] (office\<lparr>operator := [0]\<rparr>, [])
              = (Inr Dev_account, ?s1)"
    by code_simp
  have lr: "ListRoles scripted ''cached'' (AccountId Dev_account) ?s1
              = Some (([ReadOnly_role, Admin_role], None), ?s2)"
    by code_simp
  have rr: "RunSelector scripted (''Select role for '' @ AccountName Dev_account @ '':'')
              (map RoleName (sort_by_name scripted RoleName [ReadOnly_role, Admin_role]))
              (fst ?s2) = ((- 1, None), ?w0)"
    by (simp add: scripted_def office_def)
  have "\<exists>tr. handleAccountRoleSelection scripted ''cached'' [Prod_account, Dev_account] [] [] (?w0, []) =
             Some (Some (Error (case None of Some e \<Rightarrow> ''error selecting account: '' @ e
                                | None \<Rightarrow> ''no account selected'')), (?w0, tr)) \<and>
             last tr = Call_RunSelector ''Select AWS Account:''
                         (map account_option (sort_by_name scripted AccountName [Prod_account, Dev_account]))"
    using ra
    by (intro chooser_abort_fails_workflow [OF c, of "[]" "[Prod_account, Dev_account]"
          "(?w0, [])" "- 1" None ?w0 "''cached''" "[]", THEN conjunct1, THEN mp])
       simp
  then have a: "map_option fst (handleAccountRoleSelection scripted ''cached''
       [Prod_account, Dev_account] [] [] (?w0, [])) = Some (Some (Error ''no account selected''))"
    by auto
  have "\<exists>tr. handleAccountRoleSelection scripted ''cached'' [Prod_account, Dev_account] [] []
               (office\<lparr>operator := [0]\<rparr>, []) =
             Some (Some (Error (case None of Some e \<Rightarrow> ''error selecting role: '' @ e
                                | None \<Rightarrow> ''no role selected'')), (?w0, tr)) \<and>
             last tr = Call_RunSelector (''Select role for '' @ AccountName Dev_account @ '':'')
                         (map RoleName (sort_by_name scripted RoleName [ReadOnly_role, Admin_role]))"
    using sa lr rr
    by (intro chooser_abort_fails_workflow [OF c, of "[]" "[Prod_account, Dev_account]"
          "(office\<lparr>operator := [0]\<rparr>, [])" "- 1" None ?w0 "''cached''" "[]"
          Dev_account ?s1 "[ReadOnly_role, Admin_role]" ?s2, THEN conjunct2, THEN mp])
       simp
  then have r: "map_option fst (handleAccountRoleSelection scripted ''cached''
       [Prod_account, Dev_account] [] [] (office\<lparr>operator := [0]\<rparr>, []))
       = Some (Some (Error ''no role selected''))"
    by auto
  from a r show ?thesis by simp
qed




section \<open>Properties of the end of the login\<close>

text \<open>
  C2. When the profile is written and the write of the session then fails, the login does
  not complete: its last part, and with it the whole of \<^verbatim>\<open>handleAccountRoleSelection\<close>, whose
  result \<^verbatim>\<open>RunLogin\<close> returns as it is, returns the error \<^verbatim>\<open>error saving session: ...\<close> right
  after the call of \<^verbatim>\<open>SaveSession\<close>; the sweep of stale sessions is not run and no closing
  line is printed.
\<close>

theorem session_write_failure_aborts_login:
  "(client_GetRoleCredentials E tok (AccountId a) (RoleName r) (fst s) = (Inr creds, w1) \<and>
    WriteProfile E (AccountName a) (AccountId a) (RoleName r) creds w1 = (Inr profileName, w2) \<and>
    SaveSession E (Getppid E w2) profileName (AccountId a) (AccountName a) (RoleName r) w2 = (Some err, w3)
    \<longrightarrow>
    completeLogin E tok a r s =
      (Some (Error (''error saving session: '' @ err)),
       (w3, snd s @ [Call_GetRoleCredentials tok (AccountId a) (RoleName r),
                     Call_WriteProfile (AccountName a) (AccountId a) (RoleName r) creds,
                     Call_SaveSession (Getppid E w2) profileName (AccountId a) (AccountName a) (RoleName r)]))) \<and>
   (selectAccount E accounts accountName s0 = (Inr a, s1) \<and>
    ListRoles E tok (AccountId a) s1 = Some ((roles, None), s2) \<and> roles \<noteq> [] \<and>
    selectRole E a roles roleName s2 = (Inr r, s) \<and>
    client_GetRoleCredentials E tok (AccountId a) (RoleName r) (fst s) = (Inr creds, w1) \<and>
    WriteProfile E (AccountName a) (AccountId a) (RoleName r) creds w1 = (Inr profileName, w2) \<and>
    SaveSession E (Getppid E w2) profileName (AccountId a) (AccountName a) (RoleName r) w2 = (Some err, w3)
    \<longrightarrow>
    handleAccountRoleSelection E tok accounts accountName roleName s0 =
      Some (Some (Error (''error saving session: '' @ err)),
            (w3, snd s @ [Call_GetRoleCredentials tok (AccountId a) (RoleName r),
                          Call_WriteProfile (AccountName a) (AccountId a) (RoleName r) creds,
                          Call_SaveSession (Getppid E w2) profileName (AccountId a) (AccountName a) (RoleName r)])))"
proof (rule conjI; rule impI; elim conjE)
  assume "client_GetRoleCredentials E tok (AccountId a) (RoleName r) (fst s) = (Inr creds, w1)"
    "WriteProfile E (AccountName a) (AccountId a) (RoleName r) creds w1 = (Inr profileName, w2)"
    "SaveSession E (Getppid E w2) profileName (AccountId a) (AccountName a) (RoleName r) w2 = (Some err, w3)"
  then show "completeLogin E tok a r s =
      (Some (Error (''error saving session: '' @ err)),
       (w3, snd s @ [Call_GetRoleCredentials tok (AccountId a) (RoleName r),
                     Call_WriteProfile (AccountName a) (AccountId a) (RoleName r) creds,
                     Call_SaveSession (Getppid E w2) profileName (AccountId a) (AccountName a) (RoleName r)]))"
    by (rule completeLogin_session_failure)
next
  assume sel: "selectAccount E accounts accountName s0 = (Inr a, s1)"
    "ListRoles E tok (AccountId a) s1 = Some ((roles, None), s2)" "roles \<noteq> []"
    "selectRole E a roles roleName s2 = (Inr r, s)"
    and fin: "client_GetRoleCredentials E tok (AccountId a) (RoleName r) (fst s) = (Inr creds, w1)"
    "WriteProfile E (AccountName a) (AccountId a) (RoleName r) creds w1 = (Inr profileName, w2)"
    "SaveSession E (Getppid E w2) profileName (AccountId a) (AccountName a) (RoleName r) w2 = (Some err, w3)"
  show "handleAccountRoleSelection E tok accounts accountName roleName s0 =
      Some (Some (Error (''error saving session: '' @ err)),
            (w3, snd s @ [Call_GetRoleCredentials tok (AccountId a) (RoleName r),
                          Call_WriteProfile (AccountName a) (AccountId a) (RoleName r) creds,
                          Call_SaveSession (Getppid E w2) profileName (AccountId a) (AccountName a) (RoleName r)]))"
    unfolding handle_reaches_completeLogin [OF sel] completeLogin_session_failure [OF fin] ..
qed

theorem session_write_failure_aborts_login_witness:
  "completeLogin scripted ''cached'' Dev_account Admin_role
     (office\<lparr>session_store_error := Some ''permission denied''\<rparr>, []) =
     (Some (Error ''error saving session: permission denied''),
      (office\<lparr>session_store_error := Some ''permission denied''\<rparr>,
       [Call_GetRoleCredentials ''cached'' ''111'' ''Admin'',
        Call_WriteProfile ''Dev'' ''111'' ''Admin''
          \<lparr>AccessKeyId = ''AKIA'', SecretAccessKey = ''secret'', SessionToken = ''session'',
            Expiration = 0\<rparr>,
        Call_SaveSession 500 ''Dev-Admin'' ''111'' ''Dev'' ''Admin''])) \<and>
   map_option fst (handleAccountRoleSelection scripted ''cached'' [Prod_account, Dev_account]
       ''dev'' ''admin'' (office\<lparr>session_store_error := Some ''permission denied''\<rparr>, []))
     = Some (Some (Error ''error saving session: permission denied''))"
proof -
  let ?w = "office\<lparr>session_store_error := Some ''permission denied''\<rparr>"
  let ?creds = "\<lparr>AccessKeyId = ''AKIA'', SecretAccessKey = ''secret'', SessionToken = ''session'',
                  Expiration = 0\<rparr>"
  let ?t1 = "[Print ''Found account: Dev\<newline>'', Print (check_mark @ '' Selected: Dev\<newline>'')]"
  let ?t2 = "?t1 @ [Call_ListAccountRoles ''cached'' ''111'' None,
                    Call_ListAccountRoles ''cached'' ''111'' (Some ''p'')]"
  let ?t3 = "?t2 @ [Print ''Found role: Admin\<newline>'', Print (check_mark @ '' Selected: Admin\<newline>'')]"
  have fin: "client_GetRoleCredentials scripted ''cached'' (AccountId Dev_account) (RoleName Admin_role)
               ?w = (Inr ?creds, ?w) \<and>
             WriteProfile scripted (AccountName Dev_account) (AccountId Dev_account) (RoleName Admin_role)
               ?creds ?w = (Inr ''Dev-Admin'', ?w) \<and>
             SaveSession scripted (Getppid scripted ?w) ''Dev-Admin'' (AccountId Dev_account)
               (AccountName Dev_account) (RoleName Admin_role) ?w = (Some ''permission denied'', ?w)"
    by (simp add: scripted_def office_def Dev_account_def Admin_role_def)
  have sel: "selectAccount scripted [Prod_account, Dev_account] ''dev'' (?w, []) = (Inr Dev_account, (?w, ?t1)) \<and>
             ListRoles scripted ''cached'' (AccountId Dev_account) (?w, ?t1)
               = Some (([ReadOnly_role, Admin_role], None), (?w, ?t2)) \<and>
             [ReadOnly_role, Admin_role] \<noteq> [] \<and>
             selectRole scripted Dev_account [ReadOnly_role, Admin_role] ''admin'' (?w, ?t2)
               = (Inr Admin_role, (?w, ?t3))"
    by code_simp
  note T = session_write_failure_aborts_login [where E = scripted and tok = "''cached''"
      and a = Dev_account and r = Admin_role and creds = ?creds and ?w1.0 = ?w
      and profileName = "''Dev-Admin''" and ?w2.0 = ?w and err = "''permission denied''" and ?w3.0 = ?w]
  from T [where s = "(?w, [])"] fin
  have one: "completeLogin scripted ''cached'' Dev_account Admin_role (?w, []) =
     (Some (Error (''error saving session: '' @ ''permission denied'')),
      (?w, snd (?w, []) @ [Call_GetRoleCredentials ''cached'' (AccountId Dev_account) (RoleName Admin_role),
        Call_WriteProfile (AccountName Dev_account) (AccountId Dev_account) (RoleName Admin_role) ?creds,
        Call_SaveSession (Getppid scripted ?w) ''Dev-Admin'' (AccountId Dev_account)
          (AccountName Dev_account) (RoleName Admin_role)]))"
    by simp
  from T [where s = "(?w, ?t3)" and accounts = "[Prod_account, Dev_account]" and accountName = "''dev''"
      and ?s0.0 = "(?w, [])" and ?s1.0 = "(?w, ?t1)" and roles = "[ReadOnly_role, Admin_role]"
      and ?s2.0 = "(?w, ?t2)" and roleName = "''admin''"] fin sel
  have two: "map_option fst (handleAccountRoleSelection scripted ''cached'' [Prod_account, Dev_account]
       ''dev'' ''admin'' (?w, [])) = Some (Some (Error (''error saving session: '' @ ''permission denied'')))"
    by simp
  from one two show ?thesis
    by (simp add: scripted_def Dev_account_def Admin_role_def)
qed

text \<open>
  A login from a valid cached token with matching hints, where the profile is written and
  the session store then refuses the write: the run ends with an error instead of a
  success, and the sweep is never called.
\<close>

theorem session_write_failure_not_a_warning:
  "map_option fst (RunLogin scripted False ''dev'' ''admin''
       (office\<lparr>session_store_error := Some ''permission denied''\<rparr>, []))
     = Some (Some (Error ''error saving session: permission denied'')) \<and>
   map_option (\<lambda>x. Call_WriteProfile ''Dev'' ''111'' ''Admin''
                      \<lparr>AccessKeyId = ''AKIA'', SecretAccessKey = ''secret'',
                        SessionToken = ''session'', Expiration = 0\<rparr> \<in> set (snd (snd x)) \<and>
                    Call_CleanupStaleSessions \<notin> set (snd (snd x)))
     (RunLogin scripted False ''dev'' ''admin''
       (office\<lparr>session_store_error := Some ''permission denied''\<rparr>, []))
     = Some True"
  by code_simp

text \<open>
  C7. Once the session is saved, a failing sweep of stale sessions does not fail the login:
  its error is dropped, the closing lines are printed, and the last part, and with it the
  whole of \<^verbatim>\<open>handleAccountRoleSelection\<close>, returns success.
\<close>

theorem cleanup_failure_is_swallowed:
  "(client_GetRoleCredentials E tok (AccountId a) (RoleName r) (fst s) = (Inr creds, w1) \<and>
    WriteProfile E (AccountName a) (AccountId a) (RoleName r) creds w1 = (Inr profileName, w2) \<and>
    SaveSession E (Getppid E w2) profileName (AccountId a) (AccountName a) (RoleName r) w2 = (None, w3) \<and>
    CleanupStaleSessions E w3 = (Some err, w4)
    \<longrightarrow>
    completeLogin E tok a r s =
      (None,
       (w4, snd s @ [Call_GetRoleCredentials tok (AccountId a) (RoleName r),
                     Call_WriteProfile (AccountName a) (AccountId a) (RoleName r) creds,
                     Call_SaveSession (Getppid E w2) profileName (AccountId a) (AccountName a) (RoleName r),
                     Call_CleanupStaleSessions,
                     Print (''\<newline>Successfully authenticated to '' @ AccountName a @ '' (''
                            @ AccountId a @ '') as '' @ RoleName r @ ''\<newline>''),
                     Print ''\<newline>To use in this terminal:\<newline>'',
                     Print (''export AWS_PROFILE='' @ profileName @ ''\<newline>''),
                     Print (''export AWS_REGION='' @ default_region E @ ''\<newline>'')]))) \<and>
   (selectAccount E accounts accountName s0 = (Inr a, s1) \<and>
    ListRoles E tok (AccountId a) s1 = Some ((roles, None), s2) \<and> roles \<noteq> [] \<and>
    selectRole E a roles roleName s2 = (Inr r, s) \<and>
    client_GetRoleCredentials E tok (AccountId a) (RoleName r) (fst s) = (Inr creds, w1) \<and>
    WriteProfile E (AccountName a) (AccountId a) (RoleName r) creds w1 = (Inr profileName, w2) \<and>
    SaveSession E (Getppid E w2) profileName (AccountId a) (AccountName a) (RoleName r) w2 = (None, w3) \<and>
    CleanupStaleSessions E w3 = (Some err, w4)
    \<longrightarrow>
    map_option fst (handleAccountRoleSelection E tok accounts accountName roleName s0) = Some None)"
proof (rule conjI; rule impI; elim conjE)
  assume "client_GetRoleCredentials E tok (AccountId a) (RoleName r) (fst s) = (Inr creds, w1)"
    "WriteProfile E (AccountName a) (AccountId a) (RoleName r) creds w1 = (Inr profileName, w2)"
    "SaveSession E (Getppid E w2) profileName (AccountId a) (AccountName a) (RoleName r) w2 = (None, w3)"
    "CleanupStaleSessions E w3 = (Some err, w4)"
  then show "completeLogin E tok a r s =
      (None,
       (w4, snd s @ [Call_GetRoleCredentials tok (AccountId a) (RoleName r),
                     Call_WriteProfile (AccountName a) (AccountId a) (RoleName r) creds,
                     Call_SaveSession (Getppid E w2) profileName (AccountId a) (AccountName a) (RoleName r),
                     Call_CleanupStaleSessions,
                     Print (''\<newline>Successfully authenticated to '' @ AccountName a @ '' (''
                            @ AccountId a @ '') as '' @ RoleName r @ ''\<newline>''),
                     Print ''\<newline>To use in this terminal:\<newline>'',
                     Print (''export AWS_PROFILE='' @ profileName @ ''\<newline>''),
                     Print (''export AWS_REGION='' @ default_region E @ ''\<newline>'')]))"
    by (rule completeLogin_success)
next
  assume sel: "selectAccount E accounts accountName s0 = (Inr a, s1)"
    "ListRoles E tok (AccountId a) s1 = Some ((roles, None), s2)" "roles \<noteq> []"
    "selectRole E a roles roleName s2 = (Inr r, s)"
    and fin: "client_GetRoleCredentials E tok (AccountId a) (RoleName r) (fst s) = (Inr creds, w1)"
    "WriteProfile E (AccountName a) (AccountId a) (RoleName r) creds w1 = (Inr profileName, w2)"
    "SaveSession E (Getppid E w2) profileName (AccountId a) (AccountName a) (RoleName r) w2 = (None, w3)"
    "CleanupStaleSessions E w3 = (Some err, w4)"
  show "map_option fst (handleAccountRoleSelection E tok accounts accountName roleName s0) = Some None"
    unfolding handle_reaches_completeLogin [OF sel] completeLogin_success [OF fin] by simp
qed

theorem cleanup_failure_is_swallowed_witness:
  "fst (completeLogin scripted ''cached'' Dev_account Admin_role
     (office\<lparr>sweep_error := Some ''cannot read sessions''\<rparr>, [])) = None \<and>
   map_option fst (handleAccountRoleSelection scripted ''cached'' [Prod_account, Dev_account]
       ''dev'' ''admin'' (office\<lparr>sweep_error := Some ''cannot read sessions''\<rparr>, [])) = Some None"
proof -
  let ?w = "office\<lparr>sweep_error := Some ''cannot read sessions''\<rparr>"
  let ?creds = "\<lparr>AccessKeyId = ''AKIA'', SecretAccessKey = ''secret'', SessionToken = ''session'',
                  Expiration = 0\<rparr>"
  let ?t1 = "[Print ''Found account: Dev\<newline>'', Print (check_mark @ '' Selected: Dev\<newline>'')]"
  let ?t2 = "?t1 @ [Call_ListAccountRoles ''cached'' ''111'' None,
                    Call_ListAccountRoles ''cached'' ''111'' (Some ''p'')]"
  let ?t3 = "?t2 @ [Print ''Found role: Admin\<newline>'', Print (check_mark @ '' Selected: Admin\<newline>'')]"
  have fin: "client_GetRoleCredentials scripted ''cached'' (AccountId Dev_account) (RoleName Admin_role)
               ?w = (Inr ?creds, ?w) \<and>
             WriteProfile scripted (AccountName Dev_account) (AccountId Dev_account) (RoleName Admin_role)
               ?creds ?w = (Inr ''Dev-Admin'', ?w) \<and>
             SaveSession scripted (Getppid scripted ?w) ''Dev-Admin'' (AccountId Dev_account)
               (AccountName Dev_account) (RoleName Admin_role) ?w = (None, ?w) \<and>
             CleanupStaleSessions scripted ?w = (Some ''cannot read sessions'', ?w)"
    by (simp add: scripted_def office_def Dev_account_def Admin_role_def)
  have sel: "selectAccount scripted [Prod_account, Dev_account] ''dev'' (?w, []) = (Inr Dev_account, (?w, ?t1)) \<and>
             ListRoles scripted ''cached'' (AccountId Dev_account) (?w, ?t1)
               = Some (([ReadOnly_role, Admin_role], None), (?w, ?t2)) \<and>
             [ReadOnly_role, Admin_role] \<noteq> [] \<and>
             selectRole scripted Dev_account [ReadOnly_role, Admin_role] ''admin'' (?w, ?t2)
               = (Inr Admin_role, (?w, ?t3))"
    by code_simp
  note T = cleanup_failure_is_swallowed [where E = scripted and tok = "''cached''"
      and a = Dev_account and r = Admin_role and creds = ?creds and ?w1.0 = ?w
      and profileName = "''Dev-Admin''" and ?w2.0 = ?w and ?w3.0 = ?w
      and err = "''cannot read sessions''" and ?w4.0 = ?w]
  from T [where s = "(?w, [])"] fin
  have one: "fst (completeLogin scripted ''cached'' Dev_account Admin_role (?w, [])) = None"
    by simp
  from T [where s = "(?w, ?t3)" and accounts = "[Prod_account, Dev_account]" and accountName = "''dev''"
      and ?s0.0 = "(?w, [])" and ?s1.0 = "(?w, ?t1)" and roles = "[ReadOnly_role, Admin_role]"
      and ?s2.0 = "(?w, ?t2)" and roleName = "''admin''"] fin sel
  have two: "map_option fst (handleAccountRoleSelection scripted ''cached'' [Prod_account, Dev_account]
       ''dev'' ''admin'' (?w, [])) = Some None"
    by simp
  from one two show ?thesis by simp
qed

section \<open>Properties of the login workflow\<close>




text \<open>
  C10. Without \<^verbatim>\<open>--force\<close>, when the cached token is read and the listing made with it
  returns no account and no error, \<^verbatim>\<open>RunLogin\<close> does not fail there: it goes on with the
  handshake, so every such run that returns has made exactly one handshake. And with or
  without \<^verbatim>\<open>--force\<close>, a run that returns \<^verbatim>\<open>no accounts found\<close> has made one handshake that
  succeeded, has read the fresh token, and has listed the accounts once after it.
\<close>

theorem empty_cached_listing_falls_through:
  "(sso_start_url E \<noteq> [] \<and> NewCredentialsManager E w = (None, w1) \<and>
    GetCachedToken E w1 = (Inr tok, w2) \<and>
    ListAccounts E tok (w2, [Call_NewCredentialsManager, Call_GetCachedToken]) = Some (([], None), s3) \<longrightarrow>
      RunLogin E False accountName roleName (w, []) = reauthenticate E accountName roleName s3 \<and>
      (\<forall>res s'. RunLogin E False accountName roleName (w, []) = Some (res, s') \<longrightarrow>
                auth_count (snd s') = 1)) \<and>
   (RunLogin E force accountName roleName (w, []) = Some (Some (Error ''no accounts found''), (w', tr)) \<longrightarrow>
      auth_count tr = 1 \<and> listing_count (since_auth tr) = 1 \<and>
      (\<exists>s0. fresh_token_obtained E (fst s0) \<and> auth_count (snd s0) = 0 \<and>
            reauthenticate E accountName roleName s0 = Some (Some (Error ''no accounts found''), (w', tr))))"
proof (rule conjI; rule impI)
  assume h: "sso_start_url E \<noteq> [] \<and> NewCredentialsManager E w = (None, w1) \<and>
    GetCachedToken E w1 = (Inr tok, w2) \<and>
    ListAccounts E tok (w2, [Call_NewCredentialsManager, Call_GetCachedToken]) = Some (([], None), s3)"
  then have eq: "RunLogin E False accountName roleName (w, []) = reauthenticate E accountName roleName s3"
    by (simp add: RunLogin_def call_def)
  from h have "continues [Call_NewCredentialsManager, Call_GetCachedToken] 1 (snd s3)"
    using ListAccounts_loop_continues [of E tok "[]" None
        "(w2, [Call_NewCredentialsManager, Call_GetCachedToken])" "(([], None), s3)"]
    by (simp add: ListAccounts_def)
  from continues_counts [OF this] have a0: "auth_count (snd s3) = 0" by simp
  have "\<forall>res s'. RunLogin E False accountName roleName (w, []) = Some (res, s') \<longrightarrow>
                auth_count (snd s') = 1"
  proof (intro allI impI)
    fix res s'
    assume "RunLogin E False accountName roleName (w, []) = Some (res, s')"
    with eq have "reauthenticate E accountName roleName s3 = Some (res, s')" by simp
    from reauthenticate_trace [OF this] a0 show "auth_count (snd s') = 1" by auto
  qed
  with eq show "RunLogin E False accountName roleName (w, []) = reauthenticate E accountName roleName s3 \<and>
      (\<forall>res s'. RunLogin E False accountName roleName (w, []) = Some (res, s') \<longrightarrow>
                auth_count (snd s') = 1)"
    by blast
next
  assume run: "RunLogin E force accountName roleName (w, [])
                 = Some (Some (Error ''no accounts found''), (w', tr))"
  then show "auth_count tr = 1 \<and> listing_count (since_auth tr) = 1 \<and>
      (\<exists>s0. fresh_token_obtained E (fst s0) \<and> auth_count (snd s0) = 0 \<and>
            reauthenticate E accountName roleName s0 = Some (Some (Error ''no accounts found''), (w', tr)))"
  proof (cases rule: RunLogin_cases)
    case no_config
    with run show ?thesis by (simp add: RunLogin_def)
  next
    case no_manager
    with run show ?thesis
      by (auto simp: RunLogin_def call_def split: prod.splits option.splits)
  next
    case cached
    then show ?thesis by simp
  next
    case (reauth s0)
    with run have r: "reauthenticate E accountName roleName s0
                        = Some (Some (Error ''no accounts found''), (w', tr))"
      by simp
    from reauthenticate_trace [OF r] obtain d where
      d: "tr = snd s0 @ Print ''Starting SSO authentication...\<newline>''
                   # Call_Authenticate (sso_start_url E) (sso_region E) # d"
        "auth_count d = 0" "listing_count d = 1" "fresh_token_obtained E (fst s0)"
      by auto
    with reauth(5) have "auth_count tr = 1" "listing_count (since_auth tr) = 1"
      by (simp_all add: since_auth_append)
    with d(4) reauth(5) r show ?thesis by blast
  qed
qed

theorem empty_cached_listing_falls_through_witness:
  "RunLogin scripted False [] []
     (office\<lparr>accounts_of := [(''cached'', [Inr []]), (''fresh'', [Inr []])]\<rparr>, [])
     = reauthenticate scripted [] []
         (office\<lparr>accounts_of := [(''cached'', [Inr []]), (''fresh'', [Inr []])]\<rparr>,
          [Call_NewCredentialsManager, Call_GetCachedToken, Call_ListAccounts ''cached'' None]) \<and>
   map_option (\<lambda>(res, s'). (res, auth_count (snd s'), listing_count (since_auth (snd s'))))
     (RunLogin scripted False [] []
        (office\<lparr>accounts_of := [(''cached'', [Inr []]), (''fresh'', [Inr []])]\<rparr>, []))
     = Some (Some (Error ''no accounts found''), 1, 1)"
proof -
  let ?w = "office\<lparr>accounts_of := [(''cached'', [Inr []]), (''fresh'', [Inr []])]\<rparr>"
  let ?s3 = "(?w, [Call_NewCredentialsManager, Call_GetCachedToken, Call_ListAccounts ''cached'' None])"
  let ?tr = "[Call_NewCredentialsManager, Call_GetCachedToken, Call_ListAccounts ''cached'' None,
              Print ''Starting SSO authentication...\<newline>'',
              Call_Authenticate ''https://example.awsapps.com/start'' ''eu-west-1'',
              Call_GetCachedToken, Call_ListAccounts ''fresh'' None]"
  have h: "sso_start_url scripted \<noteq> [] \<and> NewCredentialsManager scripted ?w = (None, ?w) \<and>
           GetCachedToken scripted ?w = (Inr ''cached'', ?w) \<and>
           ListAccounts scripted ''cached'' (?w, [Call_NewCredentialsManager, Call_GetCachedToken])
             = Some (([], None), ?s3)"
    by code_simp
  have run: "RunLogin scripted False [] [] (?w, [])
               = Some (Some (Error ''no accounts found''), (?w\<lparr>token_cache := Some ''fresh''\<rparr>, ?tr))"
    by code_simp
  note T = empty_cached_listing_falls_through [of scripted ?w ?w "''cached''" ?w ?s3 "[]" "[]" False
      "?w\<lparr>token_cache := Some ''fresh''\<rparr>" ?tr]
  from T h have one: "RunLogin scripted False [] [] (?w, []) = reauthenticate scripted [] [] ?s3"
    by blast
  from T run have "auth_count ?tr = 1 \<and> listing_count (since_auth ?tr) = 1"
    by blast
  with run have two: "map_option (\<lambda>(res, s'). (res, auth_count (snd s'), listing_count (since_auth (snd s'))))
     (RunLogin scripted False [] [] (?w, [])) = Some (Some (Error ''no accounts found''), 1, 1)"
    by simp
  from one two show ?thesis by blast
qed

end
